theory Spec2Isabelle
  imports Main
begin

section \<open>Values of the program\<close>

text \<open>
  The extraction core of \<^verbatim>\<open>src/app.js\<close> works on two kinds of data: the values
  that \<^verbatim>\<open>JSON.parse\<close> returns, probed at run time by key, type and truthiness, and
  a parsed HTML document queried by CSS selector.

  A JavaScript string is a \<^typ>\<open>string\<close>; a character stands for one code unit
  below 0x100 (code units above that are not represented). A JSON number is an
  integer; numbers with a fraction are not represented. The code tests a number for
  truthiness and for being positive, and \<^verbatim>\<open>join\<close> turns it into text, which is
  left to the platform. An object is the list of its own properties, read with
  \<^const>\<open>map_of\<close>.
\<close>

datatype json =
    JNull
  | JBool bool
  | JNum int
  | JStr string
  | JArr "json list"
  | JObj "(string \<times> json) list"

text \<open>Exceptions that the code can raise. An uncaught exception is \<open>Inl\<close>.\<close>

datatype error = TypeError | SyntaxError

text \<open>The record \<^verbatim>\<open>{ title, ingredients, instructions }\<close> that both extractors return.
  \<^verbatim>\<open>title\<close> and the entries of \<^verbatim>\<open>ingredients\<close> are whatever values the page
  supplied; \<^verbatim>\<open>instructions\<close> has passed through string methods.\<close>

record recipe =
  title :: json
  ingredients :: "json list"
  instructions :: "string list"

text \<open>A DOM element is read through \<^verbatim>\<open>textContent\<close> only; a document through
  \<^verbatim>\<open>querySelectorAll\<close> (the matching elements in document order) and
  \<^verbatim>\<open>querySelector\<close> (the first of them, or \<^verbatim>\<open>null\<close>).\<close>

record element =
  textContent :: string

record document =
  querySelectorAll :: "string \<Rightarrow> element list"

definition querySelector :: "document \<Rightarrow> string \<Rightarrow> element option" where
  "querySelector doc selector =
     (case querySelectorAll doc selector of [] \<Rightarrow> None | el # _ \<Rightarrow> Some el)"

text \<open>Built-ins of the platform that the code calls and the source does not define:
  \<^verbatim>\<open>JSON.parse\<close> (which throws on a malformed payload),
  \<^verbatim>\<open>DOMParser.parseFromString\<close>, the text of a number
  (\<^verbatim>\<open>Number.prototype.toString\<close>, used by \<^verbatim>\<open>join\<close>), and the conversion of a
  string to a number inside the comparison \<^verbatim>\<open>x > 0\<close>, of which only the sign is
  observed. Every property below is proved for all platforms.\<close>

record platform =
  JSON_parse :: "string \<Rightarrow> error + json"
  parseFromString :: "string \<Rightarrow> document"
  Number_toString :: "int \<Rightarrow> string"
  StringToNumber_positive :: "string \<Rightarrow> bool"


section \<open>JavaScript operations on values\<close>

text \<open>Truthiness. \<open>None\<close> is \<^verbatim>\<open>undefined\<close>.\<close>

fun truthy :: "json \<Rightarrow> bool" where
  "truthy JNull = False"
| "truthy (JBool b) = b"
| "truthy (JNum n) = (n \<noteq> 0)"
| "truthy (JStr s) = (s \<noteq> [])"
| "truthy (JArr xs) = True"
| "truthy (JObj kvs) = True"

text \<open>\<open>truthy_val v\<close> is the value itself when it is truthy, for
  \<^verbatim>\<open>if (v) return v\<close> and \<^verbatim>\<open>v || w\<close>.\<close>

definition truthy_val :: "json option \<Rightarrow> json option" where
  "truthy_val v = (case v of None \<Rightarrow> None | Some x \<Rightarrow> if truthy x then Some x else None)"

definition js_or :: "json option \<Rightarrow> json \<Rightarrow> json" where
  "js_or v w = (case truthy_val v of Some x \<Rightarrow> x | None \<Rightarrow> w)"

text \<open>Reading a property named by one of the keys the code uses (\<^verbatim>\<open>@graph\<close>,
  \<^verbatim>\<open>@type\<close>, \<^verbatim>\<open>name\<close>, \<^verbatim>\<open>text\<close>, ...): none of them is defined on a
  prototype, so only an object has them; on \<^verbatim>\<open>null\<close> the read throws.\<close>

fun getprop :: "json \<Rightarrow> string \<Rightarrow> error + json option" where
  "getprop JNull k = Inl TypeError"
| "getprop (JObj kvs) k = Inr (map_of kvs k)"
| "getprop (JBool b) k = Inr None"
| "getprop (JNum n) k = Inr None"
| "getprop (JStr s) k = Inr None"
| "getprop (JArr xs) k = Inr None"

text \<open>\<^verbatim>\<open>Array.prototype.map\<close>, \<^verbatim>\<open>filter\<close> and \<^verbatim>\<open>find\<close> with a callback that may
  throw: the elements are visited in order and the first exception ends the call.\<close>

fun mapE :: "('a \<Rightarrow> error + 'b) \<Rightarrow> 'a list \<Rightarrow> error + 'b list" where
  "mapE f [] = Inr []"
| "mapE f (x # xs) =
     (case f x of Inl e \<Rightarrow> Inl e
      | Inr y \<Rightarrow> (case mapE f xs of Inl e \<Rightarrow> Inl e | Inr ys \<Rightarrow> Inr (y # ys)))"

fun filterE :: "('a \<Rightarrow> error + bool) \<Rightarrow> 'a list \<Rightarrow> error + 'a list" where
  "filterE p [] = Inr []"
| "filterE p (x # xs) =
     (case p x of Inl e \<Rightarrow> Inl e
      | Inr b \<Rightarrow> (case filterE p xs of Inl e \<Rightarrow> Inl e
                  | Inr ys \<Rightarrow> Inr (if b then x # ys else ys)))"

fun findE :: "('a \<Rightarrow> error + bool) \<Rightarrow> 'a list \<Rightarrow> error + 'a option" where
  "findE p [] = Inr None"
| "findE p (x # xs) =
     (case p x of Inl e \<Rightarrow> Inl e
      | Inr b \<Rightarrow> if b then Inr (Some x) else findE p xs)"

fun sequenceE :: "(error + 'a) list \<Rightarrow> error + 'a list" where
  "sequenceE [] = Inr []"
| "sequenceE (r # rs) =
     (case r of Inl e \<Rightarrow> Inl e
      | Inr y \<Rightarrow> (case sequenceE rs of Inl e \<Rightarrow> Inl e | Inr ys \<Rightarrow> Inr (y # ys)))"

fun intercalate :: "string \<Rightarrow> string list \<Rightarrow> string" where
  "intercalate sep [] = []"
| "intercalate sep [s] = s"
| "intercalate sep (s # t # ss) = s @ sep @ intercalate sep (t # ss)"

text \<open>\<^verbatim>\<open>ToString\<close> of a value, as \<^verbatim>\<open>join\<close> applies it to an element. An array
  prints as its elements joined by a comma, \<^verbatim>\<open>null\<close> elements as the empty string.
  An object prints as \<^verbatim>\<open>[object Object]\<close> through the inherited \<^verbatim>\<open>toString\<close>.
  An own property named \<^verbatim>\<open>toString\<close> shadows the inherited method and is not
  callable, and \<^verbatim>\<open>valueOf\<close>, own or inherited, gives no primitive: then the
  conversion throws.\<close>

fun ToString :: "platform \<Rightarrow> json \<Rightarrow> error + string" where
  "ToString P JNull = Inr ''null''"
| "ToString P (JBool b) = Inr (if b then ''true'' else ''false'')"
| "ToString P (JNum n) = Inr (Number_toString P n)"
| "ToString P (JStr s) = Inr s"
| "ToString P (JArr xs) =
     (case sequenceE (map (\<lambda>x. case x of JNull \<Rightarrow> Inr [] | _ \<Rightarrow> ToString P x) xs) of
        Inl e \<Rightarrow> Inl e
      | Inr ss \<Rightarrow> Inr (intercalate '','' ss))"
| "ToString P (JObj kvs) =
     (if map_of kvs ''toString'' = None then Inr ''[object Object]'' else Inl TypeError)"

definition Array_join :: "platform \<Rightarrow> string \<Rightarrow> json list \<Rightarrow> error + string" where
  "Array_join P sep xs =
     (case sequenceE (map (\<lambda>x. case x of JNull \<Rightarrow> Inr [] | _ \<Rightarrow> ToString P x) xs) of
        Inl e \<Rightarrow> Inl e
      | Inr ss \<Rightarrow> Inr (intercalate sep ss))"

text \<open>\<^verbatim>\<open>s.length\<close>: the length of a string or an array, an own property of an
  object, \<^verbatim>\<open>undefined\<close> on a number or a boolean.\<close>

fun length_prop :: "json \<Rightarrow> error + json option" where
  "length_prop JNull = Inl TypeError"
| "length_prop (JStr s) = Inr (Some (JNum (int (length s))))"
| "length_prop (JArr xs) = Inr (Some (JNum (int (length xs))))"
| "length_prop (JObj kvs) = Inr (map_of kvs ''length'')"
| "length_prop (JBool b) = Inr None"
| "length_prop (JNum n) = Inr None"

text \<open>\<^verbatim>\<open>x > 0\<close>: \<^verbatim>\<open>undefined\<close> converts to \<^verbatim>\<open>NaN\<close>, \<^verbatim>\<open>null\<close> to 0,
  \<^verbatim>\<open>true\<close> to 1; a string, and an array through its text, convert as the platform
  reads numbers; an object converts through \<^verbatim>\<open>[object Object]\<close> to \<^verbatim>\<open>NaN\<close>,
  or throws as in \<^const>\<open>ToString\<close>.\<close>

fun gt_zero :: "platform \<Rightarrow> json option \<Rightarrow> error + bool" where
  "gt_zero P None = Inr False"
| "gt_zero P (Some JNull) = Inr False"
| "gt_zero P (Some (JBool b)) = Inr b"
| "gt_zero P (Some (JNum n)) = Inr (0 < n)"
| "gt_zero P (Some (JStr s)) = Inr (StringToNumber_positive P s)"
| "gt_zero P (Some (JArr xs)) =
     (case ToString P (JArr xs) of Inl e \<Rightarrow> Inl e
      | Inr s \<Rightarrow> Inr (StringToNumber_positive P s))"
| "gt_zero P (Some (JObj kvs)) =
     (if map_of kvs ''toString'' = None then Inr False else Inl TypeError)"


section \<open>String methods and the three regular expressions\<close>

text \<open>The class \<^verbatim>\<open>\s\<close>, which is also what \<^verbatim>\<open>trim\<close> removes: tab, line feed,
  vertical tab, form feed, carriage return, space, no-break space.\<close>

definition is_space :: "char \<Rightarrow> bool" where
  "is_space c \<longleftrightarrow>
     c = CHR 0x09 \<or> c = CHR 0x0A \<or> c = CHR 0x0B \<or> c = CHR 0x0C \<or> c = CHR 0x0D
     \<or> c = CHR 0x20 \<or> c = CHR 0xA0"

definition trim :: "string \<Rightarrow> string" where
  "trim s = rev (dropWhile is_space (rev (dropWhile is_space s)))"

text \<open>\<^verbatim>\<open>/(?:\.\s+|\n+)/\<close> tried at the start of a string: the text after the match,
  when there is one. Both alternatives are greedy and nothing follows them.\<close>

fun sep_rest :: "string \<Rightarrow> string option" where
  "sep_rest [] = None"
| "sep_rest (c # cs) =
     (if c = CHR ''.'' \<and> cs \<noteq> [] \<and> is_space (hd cs) then Some (dropWhile is_space cs)
      else if c = CHR 0x0A then Some (dropWhile (\<lambda>d. d = CHR 0x0A) cs)
      else None)"

text \<open>\<^verbatim>\<open>s.split(/(?:\.\s+|\n+)/)\<close>: \<open>cur\<close> holds, reversed, the piece being read.\<close>

function split_acc :: "string \<Rightarrow> string \<Rightarrow> string list" where
  "split_acc cur [] = [rev cur]"
| "split_acc cur (c # cs) =
     (case sep_rest (c # cs) of
        Some rest \<Rightarrow> rev cur # split_acc [] rest
      | None \<Rightarrow> split_acc (c # cur) cs)"
  by pat_completeness auto
termination
proof (relation "measure (\<lambda>(cur, s). length s)")
  show "wf (measure (\<lambda>(cur, s). length s))" by simp
next
  fix cur :: string and c cs rest
  assume "sep_rest (c # cs) = Some rest"
  then have "length rest \<le> length cs"
    by (auto split: if_splits intro: length_dropWhile_le)
  then show "(([], rest), (cur, c # cs)) \<in> measure (\<lambda>(cur, s). length s)" by simp
next
  fix cur :: string and c cs
  show "((c # cur, cs), (cur, c # cs)) \<in> measure (\<lambda>(cur, s). length s)" by simp
qed

definition split_steps :: "string \<Rightarrow> string list" where
  "split_steps s = split_acc [] s"

text \<open>\<^verbatim>\<open>inst.replace(/<[^>]*>/g, '')\<close>: at a \<^verbatim>\<open><\<close> that has a \<^verbatim>\<open>>\<close> somewhere
  after it, everything up to the first such \<^verbatim>\<open>>\<close> is removed and the search goes
  on behind it.\<close>

function strip_tags :: "string \<Rightarrow> string" where
  "strip_tags [] = []"
| "strip_tags (c # cs) =
     (if c = CHR ''<'' \<and> CHR ''>'' \<in> set cs
      then strip_tags (tl (dropWhile (\<lambda>d. d \<noteq> CHR ''>'') cs))
      else c # strip_tags cs)"
  by pat_completeness auto
termination
proof (relation "measure length")
  show "wf (measure length)" by simp
next
  fix c :: char and cs :: string
  have "length (tl (dropWhile (\<lambda>d. d \<noteq> CHR ''>'') cs)) \<le> length cs"
    using length_dropWhile_le [of "\<lambda>d. d \<noteq> CHR ''>''" cs] by simp
  then show "(tl (dropWhile (\<lambda>d. d \<noteq> CHR ''>'') cs), c # cs) \<in> measure length" by simp
next
  fix c :: char and cs :: string
  show "(cs, c # cs) \<in> measure length" by simp
qed

text \<open>\<^verbatim>\<open>.replace(/\s+/g, ' ')\<close>: every maximal run of whitespace becomes one space.\<close>

function collapse_ws :: "string \<Rightarrow> string" where
  "collapse_ws [] = []"
| "collapse_ws (c # cs) =
     (if is_space c then CHR '' '' # collapse_ws (dropWhile is_space cs)
      else c # collapse_ws cs)"
  by pat_completeness auto
termination
proof (relation "measure length")
  show "wf (measure length)" by simp
next
  fix c :: char and cs :: string
  have "length (dropWhile is_space cs) \<le> length cs" by (rule length_dropWhile_le)
  then show "(dropWhile is_space cs, c # cs) \<in> measure length" by simp
next
  fix c :: char and cs :: string
  show "(cs, c # cs) \<in> measure length" by simp
qed

text \<open>The clean-up of one instruction, lines 145--147.\<close>

definition clean :: "string \<Rightarrow> string" where
  "clean inst = trim (collapse_ws (strip_tags inst))"

text \<open>What the code makes of a single text: the split and the filter of lines
  122--124, then the clean-up of each piece that is left.\<close>

definition textSteps :: "string \<Rightarrow> string list" where
  "textSteps s = map clean (filter (\<lambda>p. 0 < length (trim p)) (split_steps s))"


section \<open>The normalizer (\<^verbatim>\<open>normalizeRecipe\<close>, lines 106--150)\<close>

text \<open>The callback of the inner \<^verbatim>\<open>map\<close> over \<^verbatim>\<open>item.itemListElement\<close>, line 135.\<close>

definition resolveStep :: "json \<Rightarrow> error + json" where
  "resolveStep step =
     (case step of
        JStr s \<Rightarrow> Inr step
      | _ \<Rightarrow>
         (case getprop step ''text'' of Inl e \<Rightarrow> Inl e
          | Inr text \<Rightarrow>
             (case truthy_val text of Some t \<Rightarrow> Inr t
              | None \<Rightarrow>
                 (case getprop step ''name'' of Inl e \<Rightarrow> Inl e
                  | Inr name \<Rightarrow> Inr (js_or name (JStr []))))))"

text \<open>The callback of the \<^verbatim>\<open>map\<close> over \<^verbatim>\<open>data.recipeInstructions\<close>, lines 126--140.
  Calling \<^verbatim>\<open>map\<close> on an \<^verbatim>\<open>itemListElement\<close> that is truthy and not an array
  throws: the property is missing or not callable.\<close>

definition resolveItem :: "platform \<Rightarrow> json \<Rightarrow> error + json" where
  "resolveItem P item =
     (case item of
        JStr s \<Rightarrow> Inr item
      | _ \<Rightarrow>
         (case getprop item ''text'' of Inl e \<Rightarrow> Inl e
          | Inr text \<Rightarrow>
             (case truthy_val text of Some t \<Rightarrow> Inr t
              | None \<Rightarrow>
                 (case getprop item ''name'' of Inl e \<Rightarrow> Inl e
                  | Inr name \<Rightarrow>
                     (case truthy_val name of Some n \<Rightarrow> Inr n
                      | None \<Rightarrow>
                         (case getprop item ''@type'' of Inl e \<Rightarrow> Inl e
                          | Inr ty \<Rightarrow>
                             if ty = Some (JStr ''HowToStep'')
                             then Inr (js_or text (js_or name (JStr [])))
                             else if ty = Some (JStr ''HowToSection'')
                             then
                               (case getprop item ''itemListElement'' of Inl e \<Rightarrow> Inl e
                                | Inr elems \<Rightarrow>
                                   (case truthy_val elems of
                                      None \<Rightarrow> Inr (JStr [])
                                    | Some (JArr steps) \<Rightarrow>
                                       (case mapE resolveStep steps of Inl e \<Rightarrow> Inl e
                                        | Inr vs \<Rightarrow>
                                           (case Array_join P '' '' vs of Inl e \<Rightarrow> Inl e
                                            | Inr s \<Rightarrow> Inr (JStr s)))
                                    | Some _ \<Rightarrow> Inl TypeError))
                             else Inr (JStr [])))))))"

text \<open>The predicate of the \<^verbatim>\<open>filter\<close> of line 140, \<^verbatim>\<open>s => s.length > 0\<close>.\<close>

definition length_gt_zero :: "platform \<Rightarrow> json \<Rightarrow> error + bool" where
  "length_gt_zero P s = (case length_prop s of Inl e \<Rightarrow> Inl e | Inr l \<Rightarrow> gt_zero P l)"

text \<open>Lines 145--147: \<^verbatim>\<open>replace\<close> is a method of strings only; on any other value
  the call throws.\<close>

definition cleanInstruction :: "json \<Rightarrow> error + string" where
  "cleanInstruction inst = (case inst of JStr s \<Rightarrow> Inr (clean s) | _ \<Rightarrow> Inl TypeError)"

definition extractTitle :: "json \<Rightarrow> error + json" where
  "extractTitle data =
     (case getprop data ''name'' of Inl e \<Rightarrow> Inl e
      | Inr name \<Rightarrow> Inr (js_or name (JStr ''Untitled Recipe'')))"

definition extractIngredients :: "json \<Rightarrow> error + json list" where
  "extractIngredients data =
     (case getprop data ''recipeIngredient'' of Inl e \<Rightarrow> Inl e
      | Inr ri \<Rightarrow>
         (case truthy_val ri of
            None \<Rightarrow> Inr []
          | Some (JArr xs) \<Rightarrow> Inr xs
          | Some v \<Rightarrow> Inr [v]))"

text \<open>Lines 118--142: the list \<^verbatim>\<open>instructions\<close> before the clean-up.\<close>

definition rawInstructions :: "platform \<Rightarrow> json \<Rightarrow> error + json list" where
  "rawInstructions P data =
     (case getprop data ''recipeInstructions'' of Inl e \<Rightarrow> Inl e
      | Inr ri \<Rightarrow>
         (case truthy_val ri of
            None \<Rightarrow> Inr []
          | Some (JStr s) \<Rightarrow> Inr (map JStr (filter (\<lambda>p. 0 < length (trim p)) (split_steps s)))
          | Some (JArr items) \<Rightarrow>
             (case mapE (resolveItem P) items of Inl e \<Rightarrow> Inl e
              | Inr vs \<Rightarrow> filterE (length_gt_zero P) vs)
          | Some _ \<Rightarrow> Inr []))"

definition normalizeRecipe :: "platform \<Rightarrow> json \<Rightarrow> error + recipe" where
  "normalizeRecipe P data =
     (case extractTitle data of Inl e \<Rightarrow> Inl e
      | Inr t \<Rightarrow>
         (case extractIngredients data of Inl e \<Rightarrow> Inl e
          | Inr ings \<Rightarrow>
             (case rawInstructions P data of Inl e \<Rightarrow> Inl e
              | Inr raw \<Rightarrow>
                 (case mapE cleanInstruction raw of Inl e \<Rightarrow> Inl e
                  | Inr insts \<Rightarrow>
                     Inr \<lparr>title = t, ingredients = ings, instructions = insts\<rparr>))))"


section \<open>The structured-data scan (\<^verbatim>\<open>extractJsonLdRecipe\<close>, lines 73--104)\<close>

text \<open>The test on \<^verbatim>\<open>@type\<close> of lines 88--89 and 94--95.\<close>

definition isRecipeType :: "json \<Rightarrow> error + bool" where
  "isRecipeType item =
     (case getprop item ''@type'' of Inl e \<Rightarrow> Inl e
      | Inr ty \<Rightarrow>
         Inr (ty = Some (JStr ''Recipe'')
              \<or> (case ty of Some (JArr ts) \<Rightarrow> JStr ''Recipe'' \<in> set ts | _ \<Rightarrow> False)))"

text \<open>Lines 81--83.\<close>

definition unwrapGraph :: "json \<Rightarrow> error + json" where
  "unwrapGraph data =
     (case getprop data ''@graph'' of Inl e \<Rightarrow> Inl e
      | Inr g \<Rightarrow> Inr (js_or g data))"

text \<open>Lines 86--97 up to the call of \<^verbatim>\<open>normalizeRecipe\<close>: the record handed to it,
  if any.\<close>

definition selectRecipe :: "json \<Rightarrow> error + json option" where
  "selectRecipe data =
     (case data of
        JArr items \<Rightarrow>
         (case findE isRecipeType items of Inl e \<Rightarrow> Inl e
          | Inr recipeData \<Rightarrow> Inr (truthy_val recipeData))
      | _ \<Rightarrow>
         (case isRecipeType data of Inl e \<Rightarrow> Inl e
          | Inr b \<Rightarrow> Inr (if b then Some data else None)))"

text \<open>The body of the \<^verbatim>\<open>try\<close>, lines 78--97, for one script element: \<open>Inl\<close> when it
  throws, \<open>Inr (Some r)\<close> when it returns \<open>r\<close>, \<open>Inr None\<close> when it falls through.\<close>

definition tryBlock :: "platform \<Rightarrow> element \<Rightarrow> error + recipe option" where
  "tryBlock P script =
     (case JSON_parse P (textContent script) of Inl e \<Rightarrow> Inl e
      | Inr parsed \<Rightarrow>
         (case unwrapGraph parsed of Inl e \<Rightarrow> Inl e
          | Inr data \<Rightarrow>
             (case selectRecipe data of Inl e \<Rightarrow> Inl e
              | Inr None \<Rightarrow> Inr None
              | Inr (Some recipeData) \<Rightarrow>
                 (case normalizeRecipe P recipeData of Inl e \<Rightarrow> Inl e
                  | Inr r \<Rightarrow> Inr (Some r)))))"

text \<open>The loop of lines 76--101. The \<^verbatim>\<open>catch\<close> clause is empty: an exception of
  the body ends this iteration only.\<close>

fun scanScripts :: "platform \<Rightarrow> element list \<Rightarrow> error + recipe option" where
  "scanScripts P [] = Inr None"
| "scanScripts P (script # scripts) =
     (case tryBlock P script of
        Inl e \<Rightarrow> scanScripts P scripts
      | Inr None \<Rightarrow> scanScripts P scripts
      | Inr (Some r) \<Rightarrow> Inr (Some r))"

definition extractJsonLdRecipe :: "platform \<Rightarrow> document \<Rightarrow> error + recipe option" where
  \<open>extractJsonLdRecipe P doc =
     scanScripts P (querySelectorAll doc ''script[type="application/ld+json"]'')\<close>


section \<open>The heuristic extractor (\<^verbatim>\<open>extractHtmlRecipe\<close>, lines 152--218)\<close>

definition titleSelectors :: "string list" where
  \<open>titleSelectors =
     [''h1.recipe-title'', ''h1.entry-title'', ''.recipe-name'', ''h1[itemprop="name"]'',
      ''.tasty-recipes-title'', ''h2.wprm-recipe-name'', ''h1'']\<close>

definition ingredientSelectors :: "string list" where
  \<open>ingredientSelectors =
     [''[itemprop="recipeIngredient"]'', ''.ingredient'', ''.ingredients li'',
      ''.recipe-ingredients li'', ''.wprm-recipe-ingredient'',
      ''.tasty-recipes-ingredients li'']\<close>

definition instructionSelectors :: "string list" where
  \<open>instructionSelectors =
     [''[itemprop="recipeInstructions"]'', ''.instructions li'', ''.recipe-instructions li'',
      ''.directions li'', ''.wprm-recipe-instruction'', ''.tasty-recipes-instructions li'']\<close>

text \<open>The loop of lines 169--175; \<^verbatim>\<open>title\<close> starts as the empty string.\<close>

fun findTitle :: "document \<Rightarrow> string list \<Rightarrow> string" where
  "findTitle doc [] = []"
| "findTitle doc (selector # selectors) =
     (case querySelector doc selector of
        None \<Rightarrow> findTitle doc selectors
      | Some el \<Rightarrow>
         if trim (textContent el) \<noteq> [] then trim (textContent el)
         else findTitle doc selectors)"

text \<open>The loops of lines 187--193 and 205--211; the list starts empty.\<close>

fun findLines :: "document \<Rightarrow> string list \<Rightarrow> string list" where
  "findLines doc [] = []"
| "findLines doc (selector # selectors) =
     (if 0 < length (querySelectorAll doc selector)
      then map (\<lambda>el. trim (textContent el)) (querySelectorAll doc selector)
      else findLines doc selectors)"

definition extractHtmlRecipe :: "document \<Rightarrow> error + recipe option" where
  "extractHtmlRecipe doc =
     (let title = findTitle doc titleSelectors;
          ingredients = findLines doc ingredientSelectors;
          instructions = findLines doc instructionSelectors
      in if title \<noteq> [] \<and> (0 < length ingredients \<or> 0 < length instructions)
         then Inr (Some \<lparr>title = JStr title, ingredients = map JStr ingredients,
                          instructions = instructions\<rparr>)
         else Inr None)"


section \<open>The entry point (\<^verbatim>\<open>parseRecipe\<close>, lines 60--71)\<close>

definition parseRecipe :: "platform \<Rightarrow> string \<Rightarrow> string \<Rightarrow> error + recipe option" where
  "parseRecipe P html url =
     (let doc = parseFromString P html
      in case extractJsonLdRecipe P doc of
           Inl e \<Rightarrow> Inl e
         | Inr (Some recipe) \<Rightarrow> Inr (Some recipe)
         | Inr None \<Rightarrow> extractHtmlRecipe doc)"


section \<open>The documents and the page as state\<close>

text \<open>The functions above take a document as a value. In the program a document is an
  object that the DOM can change, handed over by reference, and the module keeps
  references to elements of the page it runs in. In this section both are state, passed
  through every call and returned: the documents made by \<^verbatim>\<open>DOMParser\<close> live in a
  store, a document is named by its place in the store, and what the module changes of the
  page is a record.\<close>

record page =
  url_value :: string
  fetch_disabled :: bool
  error_text :: string
  error_display :: string
  loading_display :: string
  card_visible :: bool
  actions_display :: string

record state =
  page :: page
  documents :: "nat \<Rightarrow> document"
  allocated :: nat

text \<open>The functions of lines 246--277, which write to the page: \<^verbatim>\<open>card_visible\<close> is
  the presence of the class \<^verbatim>\<open>visible\<close>, the \<^verbatim>\<open>display\<close> fields are the
  \<^verbatim>\<open>style.display\<close> of the elements.\<close>

definition showError :: "string \<Rightarrow> state \<Rightarrow> state" where
  "showError message \<sigma> =
     \<sigma>\<lparr>page := (page \<sigma>)\<lparr>error_text := message, error_display := ''block''\<rparr>\<rparr>"

definition hideError :: "state \<Rightarrow> state" where
  "hideError \<sigma> = \<sigma>\<lparr>page := (page \<sigma>)\<lparr>error_display := ''none''\<rparr>\<rparr>"

definition showLoading :: "state \<Rightarrow> state" where
  "showLoading \<sigma> = \<sigma>\<lparr>page := (page \<sigma>)\<lparr>loading_display := ''block''\<rparr>\<rparr>"

definition hideLoading :: "state \<Rightarrow> state" where
  "hideLoading \<sigma> = \<sigma>\<lparr>page := (page \<sigma>)\<lparr>loading_display := ''none''\<rparr>\<rparr>"

definition resetCard :: "state \<Rightarrow> state" where
  "resetCard \<sigma> =
     hideError (\<sigma>\<lparr>page := (page \<sigma>)\<lparr>url_value := [], card_visible := False,
                                    actions_display := ''none''\<rparr>\<rparr>)"

text \<open>\<^verbatim>\<open>parser.parseFromString(html, 'text/html')\<close> makes a new document and returns
  the reference to it; \<^verbatim>\<open>querySelectorAll\<close> and \<^verbatim>\<open>querySelector\<close> read the
  document behind a reference.\<close>

definition parseFromString_st :: "platform \<Rightarrow> string \<Rightarrow> state \<Rightarrow> nat \<times> state" where
  "parseFromString_st P html \<sigma> =
     (allocated \<sigma>,
      \<sigma>\<lparr>documents := (documents \<sigma>)(allocated \<sigma> := parseFromString P html),
        allocated := Suc (allocated \<sigma>)\<rparr>)"

definition querySelectorAll_st :: "nat \<Rightarrow> string \<Rightarrow> state \<Rightarrow> element list \<times> state" where
  "querySelectorAll_st doc selector \<sigma> = (querySelectorAll (documents \<sigma> doc) selector, \<sigma>)"

definition querySelector_st :: "nat \<Rightarrow> string \<Rightarrow> state \<Rightarrow> element option \<times> state" where
  "querySelector_st doc selector \<sigma> = (querySelector (documents \<sigma> doc) selector, \<sigma>)"

text \<open>\<^verbatim>\<open>extractJsonLdRecipe\<close>, lines 73--104: one read of the document, then the loop
  over the script elements found, which works on their text and on decoded values.\<close>

definition extractJsonLdRecipe_st ::
  "platform \<Rightarrow> nat \<Rightarrow> state \<Rightarrow> (error + recipe option) \<times> state" where
  \<open>extractJsonLdRecipe_st P doc \<sigma> =
     (case querySelectorAll_st doc ''script[type="application/ld+json"]'' \<sigma> of
        (scripts, \<sigma>') \<Rightarrow> (scanScripts P scripts, \<sigma>'))\<close>

text \<open>\<^verbatim>\<open>extractHtmlRecipe\<close>, lines 152--218: the three loops read the document once
  for every selector they try.\<close>

fun findTitle_st :: "nat \<Rightarrow> string list \<Rightarrow> state \<Rightarrow> string \<times> state" where
  "findTitle_st doc [] \<sigma> = ([], \<sigma>)"
| "findTitle_st doc (selector # selectors) \<sigma> =
     (case querySelector_st doc selector \<sigma> of
        (None, \<sigma>') \<Rightarrow> findTitle_st doc selectors \<sigma>'
      | (Some el, \<sigma>') \<Rightarrow>
         if trim (textContent el) \<noteq> [] then (trim (textContent el), \<sigma>')
         else findTitle_st doc selectors \<sigma>')"

fun findLines_st :: "nat \<Rightarrow> string list \<Rightarrow> state \<Rightarrow> string list \<times> state" where
  "findLines_st doc [] \<sigma> = ([], \<sigma>)"
| "findLines_st doc (selector # selectors) \<sigma> =
     (case querySelectorAll_st doc selector \<sigma> of
        (els, \<sigma>') \<Rightarrow>
         if 0 < length els then (map (\<lambda>el. trim (textContent el)) els, \<sigma>')
         else findLines_st doc selectors \<sigma>')"

definition extractHtmlRecipe_st :: "nat \<Rightarrow> state \<Rightarrow> (error + recipe option) \<times> state" where
  "extractHtmlRecipe_st doc \<sigma> =
     (case findTitle_st doc titleSelectors \<sigma> of
        (t, \<sigma>1) \<Rightarrow>
         (case findLines_st doc ingredientSelectors \<sigma>1 of
            (ings, \<sigma>2) \<Rightarrow>
             (case findLines_st doc instructionSelectors \<sigma>2 of
                (ins, \<sigma>3) \<Rightarrow>
                 (if t \<noteq> [] \<and> (0 < length ings \<or> 0 < length ins)
                  then Inr (Some \<lparr>title = JStr t, ingredients = map JStr ings,
                                   instructions = ins\<rparr>)
                  else Inr None,
                  \<sigma>3))))"

text \<open>\<^verbatim>\<open>parseRecipe\<close>, lines 60--71: both extractors get the reference to the
  document just made.\<close>

definition parseRecipe_st ::
  "platform \<Rightarrow> string \<Rightarrow> string \<Rightarrow> state \<Rightarrow> (error + recipe option) \<times> state" where
  "parseRecipe_st P html url \<sigma> =
     (case parseFromString_st P html \<sigma> of
        (doc, \<sigma>1) \<Rightarrow>
         (case extractJsonLdRecipe_st P doc \<sigma>1 of
            (Inl e, \<sigma>2) \<Rightarrow> (Inl e, \<sigma>2)
          | (Inr (Some r), \<sigma>2) \<Rightarrow> (Inr (Some r), \<sigma>2)
          | (Inr None, \<sigma>2) \<Rightarrow> extractHtmlRecipe_st doc \<sigma>2))"


section \<open>Notions of the specification\<close>

text \<open>These definitions follow the words of the specification, not the code; the
  theorems below compare them with the code.\<close>

text \<open>``Declared type is Recipe'': the type field is that value, or a list of values
  containing it.\<close>

definition declaredRecipe :: "json \<Rightarrow> bool" where
  "declaredRecipe item =
     (case item of
        JObj kvs \<Rightarrow>
         (case map_of kvs ''@type'' of
            Some (JStr t) \<Rightarrow> t = ''Recipe''
          | Some (JArr ts) \<Rightarrow> JStr ''Recipe'' \<in> set ts
          | _ \<Rightarrow> False)
      | _ \<Rightarrow> False)"

text \<open>A decoded value with a graph wrapper stands for what the wrapper holds (a wrapper
  key with a falsy value holds nothing to unwrap).\<close>

definition graphItems :: "json \<Rightarrow> json" where
  "graphItems parsed =
     (case parsed of
        JObj kvs \<Rightarrow>
         (case map_of kvs ''@graph'' of
            Some g \<Rightarrow> if truthy g then g else parsed
          | None \<Rightarrow> parsed)
      | _ \<Rightarrow> parsed)"

text \<open>The first Recipe-typed record of one decoded block: in a list the first such item
  in list order, otherwise the value itself.\<close>

definition firstRecipe :: "json \<Rightarrow> json option" where
  "firstRecipe parsed =
     (case graphItems parsed of
        JArr items \<Rightarrow> find declaredRecipe items
      | JNull \<Rightarrow> None
      | JBool b \<Rightarrow> None
      | JNum n \<Rightarrow> None
      | JStr s \<Rightarrow> None
      | JObj kvs \<Rightarrow> if declaredRecipe (JObj kvs) then Some (JObj kvs) else None)"

text \<open>First match wins across the decoded blocks, in document order.\<close>

fun firstRecipeOfBlocks :: "json list \<Rightarrow> json option" where
  "firstRecipeOfBlocks [] = None"
| "firstRecipeOfBlocks (parsed # rest) =
     (case firstRecipe parsed of
        Some rd \<Rightarrow> Some rd
      | None \<Rightarrow> firstRecipeOfBlocks rest)"

text \<open>``The first selector that matches at least one element in the document.''\<close>

definition firstMatching :: "document \<Rightarrow> string list \<Rightarrow> string option" where
  "firstMatching doc selectors = find (\<lambda>selector. querySelectorAll doc selector \<noteq> []) selectors"

text \<open>The first selector whose first matching element has text other than whitespace.\<close>

definition firstWithText :: "document \<Rightarrow> string list \<Rightarrow> string option" where
  "firstWithText doc selectors =
     find (\<lambda>selector. case querySelector doc selector of
                         None \<Rightarrow> False
                       | Some el \<Rightarrow> trim (textContent el) \<noteq> []) selectors"

definition trimmedTexts :: "document \<Rightarrow> string \<Rightarrow> string list" where
  "trimmedTexts doc selector = map (\<lambda>el. trim (textContent el)) (querySelectorAll doc selector)"

text \<open>The pipeline with its fallback. A block yields a recipe when its payload decodes,
  the search for its first Recipe-typed record meets no \<^verbatim>\<open>null\<close> on the way, and the
  normalization of that record returns. The first block that yields, in document order,
  gives the result; without one the heuristic recipe is the result, by the result policy.\<close>

definition inspectable :: "json \<Rightarrow> bool" where
  "inspectable parsed \<longleftrightarrow>
     parsed \<noteq> JNull
     \<and> (case graphItems parsed of
          JArr items \<Rightarrow> JNull \<notin> set (takeWhile (\<lambda>item. \<not> declaredRecipe item) items)
        | _ \<Rightarrow> True)"

definition blockYield :: "platform \<Rightarrow> string \<Rightarrow> recipe option" where
  "blockYield P payload =
     (case JSON_parse P payload of
        Inl e \<Rightarrow> None
      | Inr parsed \<Rightarrow>
         if inspectable parsed then
           (case firstRecipe parsed of
              None \<Rightarrow> None
            | Some rd \<Rightarrow> (case normalizeRecipe P rd of Inl e \<Rightarrow> None | Inr r \<Rightarrow> Some r))
         else None)"

fun firstYield :: "platform \<Rightarrow> string list \<Rightarrow> recipe option" where
  "firstYield P [] = None"
| "firstYield P (payload # payloads) =
     (case blockYield P payload of
        Some r \<Rightarrow> Some r
      | None \<Rightarrow> firstYield P payloads)"

definition heuristicRecipe :: "document \<Rightarrow> recipe option" where
  "heuristicRecipe doc =
     (let t = (case firstWithText doc titleSelectors of
                 None \<Rightarrow> [] | Some selector \<Rightarrow> hd (trimmedTexts doc selector));
          ings = (case firstMatching doc ingredientSelectors of
                    None \<Rightarrow> [] | Some selector \<Rightarrow> trimmedTexts doc selector);
          ins = (case firstMatching doc instructionSelectors of
                   None \<Rightarrow> [] | Some selector \<Rightarrow> trimmedTexts doc selector)
      in if t \<noteq> [] \<and> (ings \<noteq> [] \<or> ins \<noteq> [])
         then Some \<lparr>title = JStr t, ingredients = map JStr ings, instructions = ins\<rparr>
         else None)"






text \<open>Sentences. The specification does not say what a sentence is; here it is any
  text that is not blank, so that ``Step 1 vs. Step 2'' and ``Mix well.'', the two
  sentences of its own example, are sentences. A break is a place where a text is cut
  into steps: a full stop followed by whitespace, or a line feed.\<close>

definition sentence :: "string \<Rightarrow> bool" where
  "sentence s \<longleftrightarrow> (\<exists>c \<in> set s. \<not> is_space c)"

fun has_break :: "string \<Rightarrow> bool" where
  "has_break [] = False"
| "has_break (c # cs) =
     (c = CHR 0x0A
      \<or> (c = CHR ''.'' \<and> (case cs of [] \<Rightarrow> False | d # ds \<Rightarrow> is_space d))
      \<or> has_break cs)"

definition trimmed :: "string \<Rightarrow> bool" where
  "trimmed s \<longleftrightarrow> s = [] \<or> (\<not> is_space (hd s) \<and> \<not> is_space (last s))"


section \<open>Example pages\<close>

text \<open>Payloads of structured-data blocks, and the values they decode to.\<close>

definition soup_text :: string where
  \<open>soup_text = ''{"@type":"Recipe","name":"Soup","recipeIngredient":["salt","water"],"recipeInstructions":["<b>Boil</b>  water","","Add salt"]}''\<close>

definition soup_value :: json where
  "soup_value =
     JObj [(''@type'', JStr ''Recipe''), (''name'', JStr ''Soup''),
           (''recipeIngredient'', JArr [JStr ''salt'', JStr ''water'']),
           (''recipeInstructions'', JArr [JStr ''<b>Boil</b>  water'', JStr [], JStr ''Add salt''])]"

definition stew_text :: string where
  \<open>stew_text = ''{"@type":"Recipe","name":"Stew","recipeIngredient":["beef"],"recipeInstructions":["Brown the <i>beef</i>","Simmer"]}''\<close>

definition stew_value :: json where
  "stew_value =
     JObj [(''@type'', JStr ''Recipe''), (''name'', JStr ''Stew''),
           (''recipeIngredient'', JArr [JStr ''beef'']),
           (''recipeInstructions'', JArr [JStr ''Brown the <i>beef</i>'', JStr ''Simmer''])]"

definition nulls_text :: string where
  \<open>nulls_text = ''[null,{"@type":"Recipe","name":"A"}]''\<close>

definition recipe_A :: json where
  "recipe_A = JObj [(''@type'', JStr ''Recipe''), (''name'', JStr ''A'')]"

definition nulls_value :: json where
  "nulls_value = JArr [JNull, recipe_A]"

definition plain_text :: string where
  \<open>plain_text = ''{"@type":"Recipe","name":"B"}''\<close>

definition recipe_B :: json where
  "recipe_B = JObj [(''@type'', JStr ''Recipe''), (''name'', JStr ''B'')]"

definition graph_text :: string where
  \<open>graph_text = ''{"@graph":[{"@type":"WebPage","name":"Page"},{"@type":["Thing","Recipe"],"name":"Pie"},{"@type":"Recipe","name":"B"}]}''\<close>

definition recipe_Pie :: json where
  "recipe_Pie = JObj [(''@type'', JArr [JStr ''Thing'', JStr ''Recipe'']), (''name'', JStr ''Pie'')]"

definition graph_value :: json where
  "graph_value =
     JObj [(''@graph'',
            JArr [JObj [(''@type'', JStr ''WebPage''), (''name'', JStr ''Page'')],
                  recipe_Pie, recipe_B])]"

definition broken_text :: string where
  \<open>broken_text = ''{"@type":"Recipe",''\<close>

text \<open>A record whose instruction list holds \<^verbatim>\<open>null\<close>, and one with fields of
  unexpected shapes.\<close>

definition null_step_text :: string where
  \<open>null_step_text = ''{"@type":"Recipe","recipeInstructions":[null]}''\<close>

definition null_step_value :: json where
  "null_step_value = JObj [(''@type'', JStr ''Recipe''), (''recipeInstructions'', JArr [JNull])]"



text \<open>A decoder that knows these payloads and rejects everything else.\<close>

definition example_parse :: "string \<Rightarrow> error + json" where
  "example_parse s =
     (if s = soup_text then Inr soup_value
      else if s = stew_text then Inr stew_value
      else if s = nulls_text then Inr nulls_value
      else if s = plain_text then Inr recipe_B
      else if s = graph_text then Inr graph_value
      else if s = null_step_text then Inr null_step_value
      else Inl SyntaxError)"

definition ldjson :: "string list \<Rightarrow> document" where
  \<open>ldjson texts =
     \<lparr>querySelectorAll = (\<lambda>selector.
        if selector = ''script[type="application/ld+json"]''
        then map (\<lambda>t. \<lparr>textContent = t\<rparr>) texts else [])\<rparr>\<close>

text \<open>A page without structured data: a blank \<^verbatim>\<open>h1.recipe-title\<close>, the name in a
  \<^verbatim>\<open>.recipe-name\<close>, and ingredients that match two of the selectors.\<close>

definition plain_html :: string where
  \<open>plain_html = ''<h1 class="recipe-title">  </h1><span class="recipe-name"> Tomato Soup </span><p class="ingredient"> salt</p><p class="ingredient">water </p><ul class="ingredients"><li>pepper</li></ul>''\<close>

definition plain_page :: document where
  "plain_page =
     \<lparr>querySelectorAll = (\<lambda>selector.
        if selector = ''h1.recipe-title'' then [\<lparr>textContent = ''  ''\<rparr>]
        else if selector = ''h1'' then [\<lparr>textContent = ''  ''\<rparr>]
        else if selector = ''.recipe-name'' then [\<lparr>textContent = '' Tomato Soup ''\<rparr>]
        else if selector = ''.ingredient''
          then [\<lparr>textContent = '' salt''\<rparr>, \<lparr>textContent = ''water ''\<rparr>]
        else if selector = ''.ingredients li'' then [\<lparr>textContent = ''pepper''\<rparr>]
        else [])\<rparr>"

text \<open>The page that carries the given payloads, one script element each.\<close>

definition script_tags :: "string list \<Rightarrow> string" where
  \<open>script_tags texts =
     concat (map (\<lambda>t. ''<script type="application/ld+json">'' @ t @ ''</script>'') texts)\<close>

text \<open>The same page with a structured-data block in front, whose record has a
  \<^verbatim>\<open>null\<close> step.\<close>

definition mixed_html :: string where
  "mixed_html = script_tags [null_step_text] @ plain_html"

definition mixed_page :: document where
  \<open>mixed_page =
     \<lparr>querySelectorAll = (\<lambda>selector.
        if selector = ''script[type="application/ld+json"]''
        then [\<lparr>textContent = null_step_text\<rparr>]
        else querySelectorAll plain_page selector)\<rparr>\<close>

text \<open>A document parser that knows these pages; any other text is taken as a page
  without structured data or recipe markup.\<close>

definition example_pages :: "string \<Rightarrow> document" where
  "example_pages html =
     (if html = script_tags [soup_text] then ldjson [soup_text]
      else if html = script_tags [stew_text] then ldjson [stew_text]
      else if html = script_tags [nulls_text, plain_text] then ldjson [nulls_text, plain_text]
      else if html = script_tags [graph_text] then ldjson [graph_text]
      else if html = script_tags [broken_text, stew_text] then ldjson [broken_text, stew_text]
      else if html = plain_html then plain_page
      else if html = mixed_html then mixed_page
      else ldjson [])"

text \<open>Numbers on the example platform. An integer prints as its decimal numeral.
  JavaScript prints in this way the integers of magnitude up to \<open>2\<^sup>5\<^sup>3\<close>, which a
  number holds exactly; the examples use no other.\<close>

fun digits10 :: "nat \<Rightarrow> string" where
  "digits10 n =
     (if n < 10 then [''0123456789'' ! n]
      else digits10 (n div 10) @ [''0123456789'' ! (n mod 10)])"

declare digits10.simps [simp del]

definition decimal :: "int \<Rightarrow> string" where
  "decimal n = (if n < 0 then CHR ''-'' # digits10 (nat (- n)) else digits10 (nat n))"

text \<open>A string is read by the grammar of \<^verbatim>\<open>StringToNumber\<close>: whitespace around a
  literal that is \<^verbatim>\<open>Infinity\<close>, a decimal literal with an optional sign, fraction
  and exponent, or an unsigned binary, octal or hexadecimal integer. The value is
  positive when the sign is not \<^verbatim>\<open>-\<close>, some digit of the mantissa is not zero, and
  the value does not round to zero, which it does up to \<open>2\<^sup>-\<^sup>1\<^sup>0\<^sup>7\<^sup>5\<close>.\<close>

definition is_digit :: "char \<Rightarrow> bool" where
  "is_digit c \<longleftrightarrow> c \<in> set ''0123456789''"

definition digits_value :: "string \<Rightarrow> nat" where
  "digits_value ds = foldl (\<lambda>a c. 10 * a + (of_char c - 48)) 0 ds"

definition exponent_part :: "string \<Rightarrow> int option" where
  "exponent_part r =
     (case r of
        [] \<Rightarrow> Some 0
      | c # ds \<Rightarrow>
         if c = CHR ''e'' \<or> c = CHR ''E'' then
           (case ds of
              [] \<Rightarrow> None
            | d # ds' \<Rightarrow>
               let body = (if d = CHR ''-'' \<or> d = CHR ''+'' then ds' else ds)
               in if body \<noteq> [] \<and> list_all is_digit body
                  then Some (if d = CHR ''-'' then - int (digits_value body)
                             else int (digits_value body))
                  else None)
         else None)"

definition decimal_positive :: "string \<Rightarrow> bool" where
  "decimal_positive u \<longleftrightarrow>
     u = ''Infinity''
     \<or> (let ip = takeWhile is_digit u;
             r1 = dropWhile is_digit u;
             fp = (case r1 of [] \<Rightarrow> [] | c # r \<Rightarrow> if c = CHR ''.'' then takeWhile is_digit r else []);
             r2 = (case r1 of [] \<Rightarrow> [] | c # r \<Rightarrow> if c = CHR ''.'' then dropWhile is_digit r else r1)
         in (ip \<noteq> [] \<or> fp \<noteq> [])
            \<and> (case exponent_part r2 of
                  None \<Rightarrow> False
                | Some e \<Rightarrow>
                   let m = digits_value (ip @ fp); k = e - int (length fp)
                   in 0 < m \<and> (0 \<le> k \<or> 10 ^ nat (- k) < m * 2 ^ 1075)))"

definition radix_positive :: "string \<Rightarrow> string \<Rightarrow> bool" where
  "radix_positive digits ds \<longleftrightarrow>
     ds \<noteq> [] \<and> list_all (\<lambda>c. c \<in> set digits) ds \<and> \<not> list_all (\<lambda>c. c = CHR ''0'') ds"

definition example_positive :: "string \<Rightarrow> bool" where
  "example_positive s =
     (case trim s of
        [] \<Rightarrow> False
      | c # u \<Rightarrow>
         if c = CHR ''-'' then False
         else if c = CHR ''+'' then decimal_positive u
         else if c = CHR ''0'' \<and> u \<noteq> [] \<and> hd u \<in> set ''xX''
           then radix_positive ''0123456789abcdefABCDEF'' (tl u)
         else if c = CHR ''0'' \<and> u \<noteq> [] \<and> hd u \<in> set ''oO''
           then radix_positive ''01234567'' (tl u)
         else if c = CHR ''0'' \<and> u \<noteq> [] \<and> hd u \<in> set ''bB''
           then radix_positive ''01'' (tl u)
         else decimal_positive (c # u))"

definition example_platform :: platform where
  "example_platform =
     \<lparr>JSON_parse = example_parse, parseFromString = example_pages,
      Number_toString = decimal, StringToNumber_positive = example_positive\<rparr>"

text \<open>A state of the program: the page as it is loaded, and one document, the page
  without structured data, already in the store.\<close>

definition example_state :: state where
  "example_state =
     \<lparr>page = \<lparr>url_value = ''https://a.example/stew'', fetch_disabled = False,
               error_text = [], error_display = ''none'', loading_display = ''none'',
               card_visible = False, actions_display = ''none''\<rparr>,
      documents = (\<lambda>d. if d = 0 then plain_page else ldjson []),
      allocated = 1\<rparr>"


section \<open>Properties\<close>


subsection \<open>Example pages, evaluated\<close>

lemmas example_texts = soup_text_def stew_text_def nulls_text_def plain_text_def graph_text_def
  broken_text_def null_step_text_def

lemma example_JSON_parse:
  "JSON_parse example_platform soup_text = Inr soup_value"
  "JSON_parse example_platform stew_text = Inr stew_value"
  "JSON_parse example_platform nulls_text = Inr nulls_value"
  "JSON_parse example_platform plain_text = Inr recipe_B"
  "JSON_parse example_platform graph_text = Inr graph_value"
  "JSON_parse example_platform broken_text = Inl SyntaxError"
  "JSON_parse example_platform null_step_text = Inr null_step_value"
  by (simp_all add: example_platform_def example_parse_def example_texts)

lemma example_parseFromString:
  "parseFromString example_platform (script_tags [soup_text]) = ldjson [soup_text]"
  "parseFromString example_platform (script_tags [stew_text]) = ldjson [stew_text]"
  "parseFromString example_platform (script_tags [nulls_text, plain_text]) = ldjson [nulls_text, plain_text]"
  "parseFromString example_platform (script_tags [graph_text]) = ldjson [graph_text]"
  "parseFromString example_platform (script_tags [broken_text, stew_text]) = ldjson [broken_text, stew_text]"
  "parseFromString example_platform plain_html = plain_page"
  "parseFromString example_platform mixed_html = mixed_page"
  by (simp_all add: example_platform_def example_pages_def script_tags_def plain_html_def
      mixed_html_def example_texts)

lemma ldjson_scripts:
  \<open>querySelectorAll (ldjson texts) ''script[type="application/ld+json"]'' =
     map (\<lambda>t. \<lparr>textContent = t\<rparr>) texts\<close>
  by (simp add: ldjson_def)

lemma plain_page_scripts:
  \<open>querySelectorAll plain_page ''script[type="application/ld+json"]'' = []\<close>
  by (simp add: plain_page_def)

lemma heuristic_plain_page:
  "extractHtmlRecipe plain_page =
     Inr (Some \<lparr>title = JStr ''Tomato Soup'', ingredients = [JStr ''salt'', JStr ''water''],
                instructions = []\<rparr>)"
  by (simp add: extractHtmlRecipe_def titleSelectors_def ingredientSelectors_def
      instructionSelectors_def querySelector_def plain_page_def trim_def is_space_def Let_def)



subsection \<open>The normalizer on lists of texts\<close>

lemma mapE_resolveItem_strings: "mapE (resolveItem P) (map JStr xs) = Inr (map JStr xs)"
  by (induction xs) (simp_all add: resolveItem_def)

lemma filterE_length_strings:
  "filterE (length_gt_zero P) (map JStr xs) = Inr (map JStr (filter (\<lambda>s. s \<noteq> []) xs))"
  by (induction xs) (simp_all add: length_gt_zero_def)

lemma mapE_clean_strings: "mapE cleanInstruction (map JStr xs) = Inr (map clean xs)"
  by (induction xs) (simp_all add: cleanInstruction_def)

lemma rawInstructions_strings:
  assumes "map_of kvs ''recipeInstructions'' = Some (JArr (map JStr xs))"
  shows "rawInstructions P (JObj kvs) = Inr (map JStr (filter (\<lambda>s. s \<noteq> []) xs))"
  using assms
  by (simp add: rawInstructions_def truthy_val_def mapE_resolveItem_strings filterE_length_strings)

lemma normalizeRecipe_obj:
  "normalizeRecipe P (JObj kvs) =
     (case rawInstructions P (JObj kvs) of Inl e \<Rightarrow> Inl e
      | Inr raw \<Rightarrow>
         (case mapE cleanInstruction raw of Inl e \<Rightarrow> Inl e
          | Inr insts \<Rightarrow>
             Inr \<lparr>title = js_or (map_of kvs ''name'') (JStr ''Untitled Recipe''),
                  ingredients =
                    (case truthy_val (map_of kvs ''recipeIngredient'') of
                       None \<Rightarrow> [] | Some (JArr xs) \<Rightarrow> xs | Some v \<Rightarrow> [v]),
                  instructions = insts\<rparr>))"
  by (simp add: normalizeRecipe_def extractTitle_def extractIngredients_def
      split: sum.splits option.splits json.splits)

lemma normalize_soup:
  "normalizeRecipe P soup_value =
     Inr \<lparr>title = JStr ''Soup'', ingredients = [JStr ''salt'', JStr ''water''],
          instructions = [''Boil water'', ''Add salt'']\<rparr>"
  by (simp add: soup_value_def normalizeRecipe_def extractTitle_def extractIngredients_def
      rawInstructions_def resolveItem_def length_gt_zero_def cleanInstruction_def clean_def
      trim_def is_space_def js_or_def truthy_val_def)

lemma normalize_stew:
  "normalizeRecipe P stew_value =
     Inr \<lparr>title = JStr ''Stew'', ingredients = [JStr ''beef''],
          instructions = [''Brown the beef'', ''Simmer'']\<rparr>"
  by (simp add: stew_value_def normalizeRecipe_def extractTitle_def extractIngredients_def
      rawInstructions_def resolveItem_def length_gt_zero_def cleanInstruction_def clean_def
      trim_def is_space_def js_or_def truthy_val_def)

lemma normalize_named:
  "normalizeRecipe P (JObj [(''@type'', ty), (''name'', JStr (c # cs))]) =
     Inr \<lparr>title = JStr (c # cs), ingredients = [], instructions = []\<rparr>"
  by (simp add: normalizeRecipe_def extractTitle_def extractIngredients_def
      rawInstructions_def js_or_def truthy_val_def)

text \<open>C10: on a sequence of strings the normalizer drops the empty strings first and
  cleans what is left afterwards, so an item that is whitespace or markup only stays in the
  result as an empty string.\<close>

theorem filter_precedes_cleanup:
  "normalizeRecipe P (JObj [(''recipeInstructions'', JArr (map JStr steps))]) =
     Inr \<lparr>title = JStr ''Untitled Recipe'', ingredients = [],
          instructions = map clean (filter (\<lambda>s. s \<noteq> []) steps)\<rparr>
   \<and> normalizeRecipe P (JObj [(''recipeInstructions'',
          JArr [JObj [(''text'', JStr '' '')], JStr ''<br>'', JStr ''Stir'']) ]) =
     Inr \<lparr>title = JStr ''Untitled Recipe'', ingredients = [],
          instructions = [[], [], ''Stir'']\<rparr>"
proof
  show "normalizeRecipe P (JObj [(''recipeInstructions'', JArr (map JStr steps))]) =
     Inr \<lparr>title = JStr ''Untitled Recipe'', ingredients = [],
          instructions = map clean (filter (\<lambda>s. s \<noteq> []) steps)\<rparr>"
    by (simp add: normalizeRecipe_obj rawInstructions_strings mapE_clean_strings
        js_or_def truthy_val_def)
next
  show "normalizeRecipe P (JObj [(''recipeInstructions'',
          JArr [JObj [(''text'', JStr '' '')], JStr ''<br>'', JStr ''Stir'']) ]) =
     Inr \<lparr>title = JStr ''Untitled Recipe'', ingredients = [],
          instructions = [[], [], ''Stir'']\<rparr>"
    by (simp add: normalizeRecipe_obj rawInstructions_def resolveItem_def length_gt_zero_def
        cleanInstruction_def clean_def trim_def is_space_def js_or_def truthy_val_def)
qed


subsection \<open>Where the normalizer returns and where it throws\<close>




















subsection \<open>Splitting a single text\<close>

lemma is_space_simps [simp]:
  "is_space (CHR '' '')" "\<not> is_space (CHR ''.'')" "\<not> is_space (CHR ''<'')"
  "is_space (CHR 0x0A)"
  by (simp_all add: is_space_def)

lemma dropWhile_append_stop:
  "\<not> Q y \<Longrightarrow> dropWhile Q (xs @ y # ys) = dropWhile Q xs @ y # ys"
  by (induction xs) simp_all

lemma sep_rest_append:
  assumes "sep_rest (c # cs) = None"
  shows "sep_rest (c # cs @ CHR ''.'' # rest) = None"
proof (cases cs)
  case Nil
  with assms show ?thesis by (simp split: if_splits)
next
  case (Cons d ds)
  with assms show ?thesis by (simp split: if_splits)
qed

lemma sep_rest_append_Some:
  assumes "sep_rest (c # cs) = Some rest"
  shows "sep_rest (c # cs @ CHR ''.'' # r) = Some (rest @ CHR ''.'' # r)"
proof (cases cs)
  case Nil
  with assms show ?thesis by (simp split: if_splits)
next
  case (Cons d ds)
  with assms show ?thesis
    by (auto simp: dropWhile_append_stop split: if_splits)
qed

lemma split_acc_append:
  "split_acc cur (s1 @ CHR ''.'' # CHR '' '' # s2) =
     split_acc cur s1 @ split_acc [] (dropWhile is_space s2)"
proof (induction cur s1 rule: split_acc.induct)
  case (1 cur)
  then show ?case by simp
next
  case (2 cur c cs)
  show ?case
  proof (cases "sep_rest (c # cs)")
    case None
    then have "sep_rest (c # cs @ CHR ''.'' # CHR '' '' # s2) = None" by (rule sep_rest_append)
    with None 2 show ?thesis by (simp del: sep_rest.simps)
  next
    case (Some rest)
    then have "sep_rest (c # cs @ CHR ''.'' # CHR '' '' # s2) =
                 Some (rest @ CHR ''.'' # CHR '' '' # s2)" by (rule sep_rest_append_Some)
    with Some 2 show ?thesis by (simp del: sep_rest.simps)
  qed
qed

lemma split_acc_cur:
  "split_acc cur s = (rev cur @ hd (split_acc [] s)) # tl (split_acc [] s)"
proof (induction s arbitrary: cur)
  case Nil
  then show ?case by simp
next
  case (Cons c cs)
  show ?case
  proof (cases "sep_rest (c # cs)")
    case None
    have "split_acc (c # cur) cs = (rev (c # cur) @ hd (split_acc [] cs)) # tl (split_acc [] cs)"
      by (rule Cons.IH)
    moreover have "split_acc [c] cs = (rev [c] @ hd (split_acc [] cs)) # tl (split_acc [] cs)"
      by (rule Cons.IH)
    ultimately show ?thesis using None by (simp del: sep_rest.simps)
  next
    case (Some rest)
    then show ?thesis by (simp del: sep_rest.simps)
  qed
qed


lemma split_acc_no_break: "\<not> has_break s \<Longrightarrow> split_acc cur s = [rev cur @ s]"
proof (induction s arbitrary: cur)
  case Nil
  then show ?case by simp
next
  case (Cons c cs)
  then have "sep_rest (c # cs) = None" by (cases cs) auto
  moreover from Cons.prems have "\<not> has_break cs" by simp
  ultimately show ?case using Cons.IH [of "c # cur"] by (simp del: sep_rest.simps)
qed

lemma dropWhile_all_Nil:
  assumes "\<forall>x\<in>set (dropWhile Q xs). Q x"
  shows "dropWhile Q xs = []"
proof (rule ccontr)
  assume "dropWhile Q xs \<noteq> []"
  then have "\<not> Q (hd (dropWhile Q xs))" by (rule hd_dropWhile)
  moreover have "hd (dropWhile Q xs) \<in> set (dropWhile Q xs)"
    using \<open>dropWhile Q xs \<noteq> []\<close> by simp
  ultimately show False using assms by blast
qed

lemma trim_eq_Nil: "trim s = [] \<longleftrightarrow> (\<forall>c\<in>set s. is_space c)"
proof
  assume "trim s = []"
  then have "\<forall>x\<in>set (dropWhile is_space s). is_space x"
    by (simp add: trim_def)
  then have "dropWhile is_space s = []" by (rule dropWhile_all_Nil)
  then show "\<forall>c\<in>set s. is_space c" by simp
next
  assume "\<forall>c\<in>set s. is_space c"
  then have "dropWhile is_space s = []" by simp
  then show "trim s = []" by (simp only: trim_def rev.simps dropWhile.simps)
qed

lemma sentence_trim: "sentence s \<longleftrightarrow> 0 < length (trim s)"
  by (auto simp: sentence_def trim_eq_Nil)

lemma trim_space_Cons: "is_space c \<Longrightarrow> trim (c # s) = trim s"
  by (simp add: trim_def)

lemma trim_blank_append: "\<forall>c\<in>set ws. is_space c \<Longrightarrow> trim (ws @ p) = trim p"
  by (induction ws) (simp_all add: trim_space_Cons)

lemma trim_collapse_dropWhile:
  "trim (collapse_ws (dropWhile is_space u)) = trim (collapse_ws u)"
proof (cases u)
  case Nil
  then show ?thesis by simp
next
  case (Cons c cs)
  then show ?thesis by (simp add: trim_space_Cons)
qed

lemma clean_space_Cons:
  assumes "is_space c"
  shows "clean (c # cs) = clean cs"
proof -
  from assms have "c \<noteq> CHR ''<''" by auto
  then have "clean (c # cs) = trim (collapse_ws (dropWhile is_space (strip_tags cs)))"
    using assms by (simp add: clean_def trim_space_Cons)
  also have "\<dots> = clean cs" by (simp add: clean_def trim_collapse_dropWhile)
  finally show ?thesis .
qed

lemma clean_blank_append: "\<forall>c\<in>set ws. is_space c \<Longrightarrow> clean (ws @ p) = clean p"
  by (induction ws) (simp_all add: clean_space_Cons)

lemma split_acc_blank:
  assumes "\<forall>c\<in>set cur. is_space c"
  shows "map clean (filter (\<lambda>p. 0 < length (trim p)) (split_acc cur s)) =
         map clean (filter (\<lambda>p. 0 < length (trim p)) (split_acc [] s))"
proof -
  have "split_acc [] s = (rev [] @ hd (split_acc [] s)) # tl (split_acc [] s)"
    by (rule split_acc_cur)
  then obtain p ps where e: "split_acc [] s = p # ps" by blast
  have "split_acc cur s = (rev cur @ hd (split_acc [] s)) # tl (split_acc [] s)"
    by (rule split_acc_cur)
  then have c: "split_acc cur s = (rev cur @ p) # ps" by (simp add: e)
  from assms have b: "\<forall>c\<in>set (rev cur). is_space c" by simp
  have "trim (rev cur @ p) = trim p" using b by (rule trim_blank_append)
  moreover have "clean (rev cur @ p) = clean p" using b by (rule clean_blank_append)
  ultimately show ?thesis by (simp add: c e)
qed

lemma textSteps_space:
  assumes "is_space c" and "c \<noteq> CHR 0x0A"
  shows "textSteps (c # cs) = textSteps cs"
proof -
  from assms have "c \<noteq> CHR ''.''" by auto
  with assms(2) have "split_steps (c # cs) = split_acc [c] cs" by (simp add: split_steps_def)
  moreover have "\<forall>d\<in>set [c]. is_space d" using assms(1) by simp
  ultimately show ?thesis
    unfolding textSteps_def using split_acc_blank [of "[c]" cs] by (simp add: split_steps_def)
qed

lemma textSteps_line_feed:
  "textSteps (CHR 0x0A # cs) = textSteps (dropWhile (\<lambda>d. d = CHR 0x0A) cs)"
  by (simp add: textSteps_def split_steps_def trim_def)

lemma textSteps_line_feeds: "textSteps (dropWhile (\<lambda>d. d = CHR 0x0A) cs) = textSteps cs"
  by (induction cs) (simp_all add: textSteps_line_feed)

lemma textSteps_space_Cons: "is_space c \<Longrightarrow> textSteps (c # cs) = textSteps cs"
  by (cases "c = CHR 0x0A") (simp_all add: textSteps_line_feed textSteps_line_feeds textSteps_space)

lemma textSteps_dropWhile: "textSteps (dropWhile is_space s) = textSteps s"
  by (induction s) (simp_all add: textSteps_space_Cons)

lemma textSteps_append:
  "textSteps (s1 @ ''. '' @ s2) = textSteps s1 @ textSteps s2"
proof -
  have "split_steps (s1 @ ''. '' @ s2) = split_steps s1 @ split_steps (dropWhile is_space s2)"
    using split_acc_append [of "[]" s1 s2] by (simp add: split_steps_def)
  then have "textSteps (s1 @ ''. '' @ s2) = textSteps s1 @ textSteps (dropWhile is_space s2)"
    by (simp add: textSteps_def)
  then show ?thesis by (simp only: textSteps_dropWhile)
qed

lemma textSteps_no_break:
  assumes "sentence s" and "\<not> has_break s"
  shows "textSteps s = [clean s]"
proof -
  have "split_steps s = [s]" using split_acc_no_break [OF assms(2), of "[]"]
    by (simp add: split_steps_def)
  moreover have "0 < length (trim s)" using assms(1) by (simp add: sentence_trim)
  ultimately show ?thesis by (simp add: textSteps_def)
qed


lemma in_set_dropWhile: "x \<in> set xs \<Longrightarrow> \<not> Q x \<Longrightarrow> x \<in> set (dropWhile Q xs)"
  by (induction xs) auto

lemma collapse_ws_keeps: "x \<in> set s \<Longrightarrow> \<not> is_space x \<Longrightarrow> x \<in> set (collapse_ws s)"
proof (induction s rule: collapse_ws.induct)
  case 1
  then show ?case by simp
next
  case (2 c cs)
  then show ?case by (auto simp: in_set_dropWhile)
qed

lemma collapse_ws_blank: "\<forall>c\<in>set s. is_space c \<Longrightarrow> \<forall>c\<in>set (collapse_ws s). is_space c"
proof (induction s rule: collapse_ws.induct)
  case 1
  then show ?case by simp
next
  case (2 c cs)
  from 2(3) have c: "is_space c" by simp
  from 2(3) have "\<forall>d\<in>set (dropWhile is_space cs). is_space d"
    using set_dropWhileD [of _ is_space cs] by auto
  with c have "\<forall>d\<in>set (collapse_ws (dropWhile is_space cs)). is_space d" by (rule 2(1))
  with c show ?case by simp
qed

lemma clean_eq_Nil: "clean s = [] \<longleftrightarrow> (\<forall>c\<in>set (strip_tags s). is_space c)"
proof
  assume "clean s = []"
  then have a: "\<forall>c\<in>set (collapse_ws (strip_tags s)). is_space c"
    by (simp add: clean_def trim_eq_Nil)
  show "\<forall>c\<in>set (strip_tags s). is_space c"
  proof
    fix c assume c: "c \<in> set (strip_tags s)"
    show "is_space c"
    proof (rule ccontr)
      assume n: "\<not> is_space c"
      with c have "c \<in> set (collapse_ws (strip_tags s))" by (rule collapse_ws_keeps)
      with a n show False by blast
    qed
  qed
next
  assume "\<forall>c\<in>set (strip_tags s). is_space c"
  then have "\<forall>c\<in>set (collapse_ws (strip_tags s)). is_space c" by (rule collapse_ws_blank)
  then show "clean s = []" by (simp add: clean_def trim_eq_Nil)
qed

lemma last_dropWhile_nonempty:
  assumes "dropWhile Q xs \<noteq> []"
  shows "last (dropWhile Q xs) = last xs"
proof -
  have "xs = takeWhile Q xs @ dropWhile Q xs" by simp
  then have "last xs = last (takeWhile Q xs @ dropWhile Q xs)" by simp
  also have "\<dots> = last (dropWhile Q xs)" using assms by (simp only: last_append if_False)
  finally show ?thesis by simp
qed

lemma trimmed_trim: "trimmed (trim s)"
proof (cases "trim s = []")
  case True
  then show ?thesis by (simp add: trimmed_def)
next
  case False
  let ?ys = "dropWhile is_space s"
  let ?zs = "dropWhile is_space (rev ?ys)"
  from False have zs: "?zs \<noteq> []" by (simp add: trim_def)
  have ys: "?ys \<noteq> []"
  proof
    assume "?ys = []"
    then have "?zs = []" by (simp only: rev.simps dropWhile.simps)
    with zs show False by contradiction
  qed
  have "last (trim s) = hd ?zs" using zs by (simp add: trim_def last_rev)
  moreover have "\<not> is_space (hd ?zs)" using zs by (rule hd_dropWhile)
  moreover have "hd (trim s) = last ?zs" using zs by (simp add: trim_def hd_rev)
  moreover have "last ?zs = last (rev ?ys)" using zs by (rule last_dropWhile_nonempty)
  moreover have "last (rev ?ys) = hd ?ys" using ys by (simp add: last_rev)
  moreover have "\<not> is_space (hd ?ys)" using ys by (rule hd_dropWhile)
  ultimately show ?thesis by (simp add: trimmed_def)
qed

lemma trimmed_textSteps: "list_all trimmed (textSteps s)"
  by (simp add: textSteps_def clean_def trimmed_trim list_all_iff)

lemma normalizeRecipe_text:
  assumes "map_of kvs ''recipeInstructions'' = Some (JStr s)"
  shows "\<exists>t ings. normalizeRecipe P (JObj kvs) =
            Inr \<lparr>title = t, ingredients = ings, instructions = textSteps s\<rparr>"
proof (cases "s = []")
  case True
  then have "rawInstructions P (JObj kvs) = Inr []"
    using assms by (simp add: rawInstructions_def truthy_val_def)
  moreover have "textSteps [] = []" by (simp add: textSteps_def split_steps_def trim_def)
  ultimately show ?thesis using True by (simp add: normalizeRecipe_obj)
next
  case False
  then have "rawInstructions P (JObj kvs) =
      Inr (map JStr (filter (\<lambda>p. 0 < length (trim p)) (split_steps s)))"
    using assms by (simp add: rawInstructions_def truthy_val_def)
  then show ?thesis by (simp add: normalizeRecipe_obj mapE_clean_strings textSteps_def)
qed

text \<open>C8, as the code has it: when \<^verbatim>\<open>recipeInstructions\<close> is a single text made of
  two parts joined by a full stop and a space, the instructions are those that the first
  part gives alone followed by those that the second part gives alone. A sentence with no
  break inside (no full stop followed by whitespace, no line feed) gives exactly one
  instruction, the sentence cleaned; so two such sentences give exactly two. A sentence
  with a break inside is cut there as well. Every instruction is free of whitespace at
  both ends; the cleaned sentence is empty exactly when the sentence has nothing but
  whitespace outside its markup tags.\<close>

theorem two_sentences_split:
  assumes "map_of kvs ''recipeInstructions'' = Some (JStr (s1 @ ''. '' @ s2))"
  shows "(\<exists>t ings. normalizeRecipe P (JObj kvs) =
            Inr \<lparr>title = t, ingredients = ings, instructions = textSteps s1 @ textSteps s2\<rparr>)
         \<and> (sentence s1 \<and> \<not> has_break s1 \<longrightarrow> textSteps s1 = [clean s1])
         \<and> (sentence s2 \<and> \<not> has_break s2 \<longrightarrow> textSteps s2 = [clean s2])
         \<and> list_all trimmed (textSteps s1 @ textSteps s2)
         \<and> (clean s1 = [] \<longleftrightarrow> (\<forall>c\<in>set (strip_tags s1). is_space c))
         \<and> (clean s2 = [] \<longleftrightarrow> (\<forall>c\<in>set (strip_tags s2). is_space c))"
proof (intro conjI)
  show "\<exists>t ings. normalizeRecipe P (JObj kvs) =
            Inr \<lparr>title = t, ingredients = ings, instructions = textSteps s1 @ textSteps s2\<rparr>"
    using normalizeRecipe_text [OF assms, of P] by (simp only: textSteps_append)
  show "sentence s1 \<and> \<not> has_break s1 \<longrightarrow> textSteps s1 = [clean s1]"
    by (simp add: textSteps_no_break)
  show "sentence s2 \<and> \<not> has_break s2 \<longrightarrow> textSteps s2 = [clean s2]"
    by (simp add: textSteps_no_break)
  show "list_all trimmed (textSteps s1 @ textSteps s2)"
    by (simp add: trimmed_textSteps)
qed (rule clean_eq_Nil)+

theorem two_sentences_split_witness:
  "sentence ''Mix  the <b>flour</b>'' \<and> \<not> has_break ''Mix  the <b>flour</b>''
   \<and> sentence ''Bake.'' \<and> \<not> has_break ''Bake.''
   \<and> normalizeRecipe example_platform
        (JObj [(''@type'', JStr ''Recipe''),
               (''recipeInstructions'', JStr ''Mix  the <b>flour</b>. Bake.'')]) =
       Inr \<lparr>title = JStr ''Untitled Recipe'', ingredients = [],
            instructions = [''Mix the flour'', ''Bake.'']\<rparr>"
proof -
  have a: "sentence ''Mix  the <b>flour</b>''" "\<not> has_break ''Mix  the <b>flour</b>''"
    by (simp_all add: sentence_def is_space_def)
  have b: "sentence ''Bake.''" "\<not> has_break ''Bake.''"
    by (simp_all add: sentence_def is_space_def)
  have ri: "map_of [(''@type'', JStr ''Recipe''),
               (''recipeInstructions'', JStr ''Mix  the <b>flour</b>. Bake.'')]
             ''recipeInstructions'' = Some (JStr (''Mix  the <b>flour</b>'' @ ''. '' @ ''Bake.''))"
    by simp
  have c: "clean ''Mix  the <b>flour</b>'' = ''Mix the flour''" "clean ''Bake.'' = ''Bake.''"
    by (simp_all add: clean_def trim_def is_space_def)
  note t = two_sentences_split [OF ri, of example_platform]
  from t a have 1: "textSteps ''Mix  the <b>flour</b>'' = [''Mix the flour'']"
    by (simp only: c) blast
  from t b have 2: "textSteps ''Bake.'' = [''Bake.'']"
    by (simp only: c) blast
  from t obtain t' ings where
    "normalizeRecipe example_platform
        (JObj [(''@type'', JStr ''Recipe''),
               (''recipeInstructions'', JStr ''Mix  the <b>flour</b>. Bake.'')]) =
       Inr \<lparr>title = t', ingredients = ings,
            instructions = textSteps ''Mix  the <b>flour</b>'' @ textSteps ''Bake.''\<rparr>"
    by blast
  then have "normalizeRecipe example_platform
        (JObj [(''@type'', JStr ''Recipe''),
               (''recipeInstructions'', JStr ''Mix  the <b>flour</b>. Bake.'')]) =
       Inr \<lparr>title = t', ingredients = ings, instructions = [''Mix the flour'', ''Bake.'']\<rparr>"
    by (simp only: 1 2 append.simps)
  moreover have "extractTitle (JObj [(''@type'', JStr ''Recipe''),
               (''recipeInstructions'', JStr ''Mix  the <b>flour</b>. Bake.'')]) = Inr (JStr ''Untitled Recipe'')"
    by (simp add: extractTitle_def js_or_def truthy_val_def)
  moreover have "extractIngredients (JObj [(''@type'', JStr ''Recipe''),
               (''recipeInstructions'', JStr ''Mix  the <b>flour</b>. Bake.'')]) = Inr []"
    by (simp add: extractIngredients_def truthy_val_def)
  ultimately have "normalizeRecipe example_platform
        (JObj [(''@type'', JStr ''Recipe''),
               (''recipeInstructions'', JStr ''Mix  the <b>flour</b>. Bake.'')]) =
       Inr \<lparr>title = JStr ''Untitled Recipe'', ingredients = [],
            instructions = [''Mix the flour'', ''Bake.'']\<rparr>"
    by (auto simp: normalizeRecipe_def split: sum.splits)
  with a b show ?thesis by simp
qed

text \<open>The claim as the specification words it does not hold: the two sentences of the
  example in its design notes, joined by a full stop and a space, give three
  instructions.\<close>

theorem two_sentences_counterexample:
  "sentence ''Step 1 vs. Step 2'' \<and> sentence ''Mix well.''
   \<and> normalizeRecipe example_platform
        (JObj [(''@type'', JStr ''Recipe''),
               (''recipeInstructions'', JStr (''Step 1 vs. Step 2'' @ ''. '' @ ''Mix well.''))]) =
       Inr \<lparr>title = JStr ''Untitled Recipe'', ingredients = [],
            instructions = [''Step 1 vs'', ''Step 2'', ''Mix well.'']\<rparr>"
proof (intro conjI)
  show "sentence ''Step 1 vs. Step 2''" by (simp add: sentence_def is_space_def)
  show "sentence ''Mix well.''" by (simp add: sentence_def is_space_def)
  show "normalizeRecipe example_platform
        (JObj [(''@type'', JStr ''Recipe''),
               (''recipeInstructions'', JStr (''Step 1 vs. Step 2'' @ ''. '' @ ''Mix well.''))]) =
       Inr \<lparr>title = JStr ''Untitled Recipe'', ingredients = [],
            instructions = [''Step 1 vs'', ''Step 2'', ''Mix well.'']\<rparr>"
    by (simp add: normalizeRecipe_def extractTitle_def extractIngredients_def rawInstructions_def
        split_steps_def cleanInstruction_def clean_def trim_def is_space_def js_or_def
        truthy_val_def)
qed


subsection \<open>The scan of the structured-data blocks\<close>

lemma isRecipeType_declared: "isRecipeType item = Inr b \<Longrightarrow> b = declaredRecipe item"
  by (cases item) (auto simp: isRecipeType_def declaredRecipe_def split: option.splits json.splits)

lemma declaredRecipe_truthy: "declaredRecipe item \<Longrightarrow> truthy item"
  by (cases item) (simp_all add: declaredRecipe_def)

lemma findE_find: "findE isRecipeType items = Inr res \<Longrightarrow> res = find declaredRecipe items"
proof (induction items)
  case Nil
  then show ?case by simp
next
  case (Cons item items)
  then show ?case
    by (auto split: sum.splits if_splits dest: isRecipeType_declared)
qed

lemma unwrapGraph_graphItems: "unwrapGraph parsed = Inr data \<Longrightarrow> data = graphItems parsed"
  by (cases parsed)
     (auto simp: unwrapGraph_def graphItems_def js_or_def truthy_val_def split: option.splits)

lemma selectRecipe_first:
  assumes "unwrapGraph parsed = Inr data" and "selectRecipe data = Inr sel"
  shows "sel = firstRecipe parsed"
proof -
  have data: "data = graphItems parsed" using assms(1) by (rule unwrapGraph_graphItems)
  show ?thesis
  proof (cases data)
    case (JArr items)
    then obtain res where res: "findE isRecipeType items = Inr res" and sel: "sel = truthy_val res"
      using assms(2) by (auto simp: selectRecipe_def split: sum.splits)
    have "res = find declaredRecipe items" using res by (rule findE_find)
    moreover have "truthy_val res = res"
    proof (cases res)
      case None
      then show ?thesis by (simp add: truthy_val_def)
    next
      case (Some x)
      then have "declaredRecipe x"
        using \<open>res = find declaredRecipe items\<close> by (metis find_Some_iff)
      then show ?thesis using Some by (simp add: truthy_val_def declaredRecipe_truthy)
    qed
    ultimately show ?thesis using JArr data sel by (simp add: firstRecipe_def)
  next
    case JNull
    then show ?thesis using assms(2) by (simp add: selectRecipe_def isRecipeType_def)
  next
    case (JBool b)
    then show ?thesis using assms(2) data
      by (auto simp: selectRecipe_def isRecipeType_def firstRecipe_def)
  next
    case (JNum n)
    then show ?thesis using assms(2) data
      by (auto simp: selectRecipe_def isRecipeType_def firstRecipe_def)
  next
    case (JStr s)
    then show ?thesis using assms(2) data
      by (auto simp: selectRecipe_def isRecipeType_def firstRecipe_def)
  next
    case (JObj kvs)
    then obtain b where b: "isRecipeType data = Inr b" and sel: "sel = (if b then Some data else None)"
      using assms(2) by (auto simp: selectRecipe_def split: sum.splits)
    have "b = declaredRecipe data" using b by (rule isRecipeType_declared)
    then show ?thesis using JObj data sel by (simp add: firstRecipe_def)
  qed
qed

lemma firstRecipe_declared: "firstRecipe parsed = Some rd \<Longrightarrow> declaredRecipe rd"
  by (cases "graphItems parsed")
     (auto simp: firstRecipe_def find_Some_iff split: if_splits)

lemma tryBlock_Some:
  assumes "tryBlock P script = Inr (Some r)"
  shows "\<exists>parsed rd. JSON_parse P (textContent script) = Inr parsed
           \<and> firstRecipe parsed = Some rd \<and> normalizeRecipe P rd = Inr r"
proof -
  from assms obtain parsed data rd where
    p: "JSON_parse P (textContent script) = Inr parsed" and
    u: "unwrapGraph parsed = Inr data" and
    s: "selectRecipe data = Inr (Some rd)" and
    n: "normalizeRecipe P rd = Inr r"
    by (auto simp: tryBlock_def split: sum.splits option.splits)
  from selectRecipe_first [OF u s, symmetric] p n show ?thesis by auto
qed

lemma tryBlock_None:
  assumes "tryBlock P script = Inr None"
  shows "\<exists>parsed. JSON_parse P (textContent script) = Inr parsed \<and> firstRecipe parsed = None"
proof -
  from assms obtain parsed data where
    p: "JSON_parse P (textContent script) = Inr parsed" and
    u: "unwrapGraph parsed = Inr data" and
    s: "selectRecipe data = Inr None"
    by (auto simp: tryBlock_def split: sum.splits option.splits)
  from selectRecipe_first [OF u s, symmetric] p show ?thesis by auto
qed

lemma scanScripts_first:
  assumes "scanScripts P scripts = Inr (Some r)"
  shows "\<exists>pre script post. scripts = pre @ script # post
           \<and> (\<forall>b\<in>set pre. (\<exists>e. tryBlock P b = Inl e) \<or> tryBlock P b = Inr None)
           \<and> tryBlock P script = Inr (Some r)"
  using assms
proof (induction scripts)
  case Nil
  then show ?case by simp
next
  case (Cons s scripts)
  show ?case
  proof (cases "tryBlock P s = Inr (Some r)")
    case True
    then have "s # scripts = [] @ s # scripts \<and> (\<forall>b\<in>set []. (\<exists>e. tryBlock P b = Inl e) \<or> tryBlock P b = Inr None)
       \<and> tryBlock P s = Inr (Some r)" by simp
    then show ?thesis by blast
  next
    case False
    with Cons.prems have skip: "(\<exists>e. tryBlock P s = Inl e) \<or> tryBlock P s = Inr None"
      and rest: "scanScripts P scripts = Inr (Some r)"
      by (auto split: sum.splits option.splits)
    from Cons.IH [OF rest] obtain pre script post where
      "scripts = pre @ script # post"
      "\<forall>b\<in>set pre. (\<exists>e. tryBlock P b = Inl e) \<or> tryBlock P b = Inr None"
      "tryBlock P script = Inr (Some r)" by blast
    with skip have "s # scripts = (s # pre) @ script # post
       \<and> (\<forall>b\<in>set (s # pre). (\<exists>e. tryBlock P b = Inl e) \<or> tryBlock P b = Inr None)
       \<and> tryBlock P script = Inr (Some r)" by simp
    then show ?thesis by blast
  qed
qed

lemma scanScripts_skip:
  assumes "\<forall>b\<in>set pre. (\<exists>e. tryBlock P b = Inl e) \<or> tryBlock P b = Inr None"
  shows "scanScripts P (pre @ rest) = scanScripts P rest"
  using assms by (induction pre) auto

lemma scanScripts_returns: "\<exists>r. scanScripts P scripts = Inr r"
  by (induction scripts) (auto split: sum.splits option.splits)

lemma tryBlock_stew:
  "tryBlock example_platform \<lparr>textContent = stew_text\<rparr> =
     Inr (Some \<lparr>title = JStr ''Stew'', ingredients = [JStr ''beef''],
                instructions = [''Brown the beef'', ''Simmer'']\<rparr>)"
  by (simp add: tryBlock_def example_JSON_parse normalize_stew)
     (simp add: stew_value_def unwrapGraph_def selectRecipe_def isRecipeType_def js_or_def
        truthy_val_def normalize_stew [unfolded stew_value_def])

lemma tryBlock_nulls: "tryBlock example_platform \<lparr>textContent = nulls_text\<rparr> = Inl TypeError"
  by (simp add: tryBlock_def example_JSON_parse)
     (simp add: nulls_value_def unwrapGraph_def selectRecipe_def isRecipeType_def js_or_def
        truthy_val_def)

lemma tryBlock_plain:
  "tryBlock example_platform \<lparr>textContent = plain_text\<rparr> =
     Inr (Some \<lparr>title = JStr ''B'', ingredients = [], instructions = []\<rparr>)"
  by (simp add: tryBlock_def example_JSON_parse)
     (simp add: recipe_B_def unwrapGraph_def selectRecipe_def isRecipeType_def js_or_def
        truthy_val_def normalize_named)

lemma tryBlock_graph:
  "tryBlock example_platform \<lparr>textContent = graph_text\<rparr> =
     Inr (Some \<lparr>title = JStr ''Pie'', ingredients = [], instructions = []\<rparr>)"
  by (simp add: tryBlock_def example_JSON_parse)
     (simp add: graph_value_def recipe_Pie_def recipe_B_def unwrapGraph_def selectRecipe_def
        isRecipeType_def js_or_def truthy_val_def normalize_named)

text \<open>C4, as the code has it: a recipe returned by the structured-data scan is the
  normalization of the first Recipe-typed record of one block, where a graph wrapper with
  a truthy value is unwrapped before the type is inspected and the type field is
  \<^verbatim>\<open>Recipe\<close> or a list containing it. That block is the first in document order
  that yields a recipe: every block before it either raised an exception, in decoding,
  in inspecting an item or in normalizing, or holds no Recipe-typed record.\<close>

theorem first_recipe_wins:
  assumes "extractJsonLdRecipe P doc = Inr (Some r)"
  shows \<open>\<exists>pre script post parsed rd.
           querySelectorAll doc ''script[type="application/ld+json"]'' = pre @ script # post
           \<and> (\<forall>b\<in>set pre. (\<exists>e. tryBlock P b = Inl e)
                 \<or> (\<exists>v. JSON_parse P (textContent b) = Inr v \<and> firstRecipe v = None))
           \<and> JSON_parse P (textContent script) = Inr parsed
           \<and> firstRecipe parsed = Some rd \<and> declaredRecipe rd
           \<and> (\<forall>items. graphItems parsed = JArr items \<longrightarrow>
                 (\<exists>i<length items. items ! i = rd \<and> (\<forall>j<i. \<not> declaredRecipe (items ! j))))
           \<and> normalizeRecipe P rd = Inr r\<close>
proof -
  from assms have \<open>scanScripts P (querySelectorAll doc ''script[type="application/ld+json"]'')
                     = Inr (Some r)\<close>
    by (simp add: extractJsonLdRecipe_def)
  from scanScripts_first [OF this] obtain pre script post where
    sc: \<open>querySelectorAll doc ''script[type="application/ld+json"]'' = pre @ script # post\<close>
    and pre: "\<forall>b\<in>set pre. (\<exists>e. tryBlock P b = Inl e) \<or> tryBlock P b = Inr None"
    and t: "tryBlock P script = Inr (Some r)" by blast
  from tryBlock_Some [OF t] obtain parsed rd where
    p: "JSON_parse P (textContent script) = Inr parsed" and
    f: "firstRecipe parsed = Some rd" and n: "normalizeRecipe P rd = Inr r" by blast
  have pre': "\<forall>b\<in>set pre. (\<exists>e. tryBlock P b = Inl e)
                 \<or> (\<exists>v. JSON_parse P (textContent b) = Inr v \<and> firstRecipe v = None)"
    using pre tryBlock_None by blast
  have l: "\<forall>items. graphItems parsed = JArr items \<longrightarrow>
                 (\<exists>i<length items. items ! i = rd \<and> (\<forall>j<i. \<not> declaredRecipe (items ! j)))"
  proof (intro allI impI)
    fix items assume "graphItems parsed = JArr items"
    with f have "find declaredRecipe items = Some rd" by (simp add: firstRecipe_def)
    then show "\<exists>i<length items. items ! i = rd \<and> (\<forall>j<i. \<not> declaredRecipe (items ! j))"
      unfolding find_Some_iff by blast
  qed
  from sc pre' p f n l firstRecipe_declared [OF f] show ?thesis by blast
qed

theorem first_recipe_wins_witness:
  \<open>extractJsonLdRecipe example_platform (ldjson [graph_text]) =
     Inr (Some \<lparr>title = JStr ''Pie'', ingredients = [], instructions = []\<rparr>)
   \<and> firstRecipe graph_value = Some recipe_Pie
   \<and> (\<exists>pre script post parsed rd.
           querySelectorAll (ldjson [graph_text]) ''script[type="application/ld+json"]''
             = pre @ script # post
           \<and> (\<forall>b\<in>set pre. (\<exists>e. tryBlock example_platform b = Inl e)
                 \<or> (\<exists>v. JSON_parse example_platform (textContent b) = Inr v
                       \<and> firstRecipe v = None))
           \<and> JSON_parse example_platform (textContent script) = Inr parsed
           \<and> firstRecipe parsed = Some rd \<and> declaredRecipe rd
           \<and> (\<forall>items. graphItems parsed = JArr items \<longrightarrow>
                 (\<exists>i<length items. items ! i = rd \<and> (\<forall>j<i. \<not> declaredRecipe (items ! j))))
           \<and> normalizeRecipe example_platform rd =
               Inr \<lparr>title = JStr ''Pie'', ingredients = [], instructions = []\<rparr>)\<close>
proof -
  have h: "extractJsonLdRecipe example_platform (ldjson [graph_text]) =
     Inr (Some \<lparr>title = JStr ''Pie'', ingredients = [], instructions = []\<rparr>)"
    by (simp add: extractJsonLdRecipe_def ldjson_scripts tryBlock_graph)
  have f: "firstRecipe graph_value = Some recipe_Pie"
    by (simp add: firstRecipe_def graphItems_def graph_value_def declaredRecipe_def
        recipe_Pie_def recipe_B_def)
  from first_recipe_wins [OF h] h f show ?thesis by blast
qed

text \<open>The record selected is not always the first Recipe-typed one in document and list
  order: here the first block is a list whose first item is \<^verbatim>\<open>null\<close>; reading its
  type throws, the block is abandoned with its Recipe-typed record \<open>A\<close>, and the
  record of the second block is returned.\<close>

theorem first_recipe_wins_counterexample:
  "JSON_parse example_platform nulls_text = Inr nulls_value
   \<and> JSON_parse example_platform plain_text = Inr recipe_B
   \<and> firstRecipeOfBlocks [nulls_value, recipe_B] = Some recipe_A
   \<and> normalizeRecipe example_platform recipe_A =
       Inr \<lparr>title = JStr ''A'', ingredients = [], instructions = []\<rparr>
   \<and> extractJsonLdRecipe example_platform (ldjson [nulls_text, plain_text]) =
       Inr (Some \<lparr>title = JStr ''B'', ingredients = [], instructions = []\<rparr>)"
proof (intro conjI)
  show "firstRecipeOfBlocks [nulls_value, recipe_B] = Some recipe_A"
    by (simp add: firstRecipe_def graphItems_def nulls_value_def declaredRecipe_def recipe_A_def)
  show "normalizeRecipe example_platform recipe_A =
       Inr \<lparr>title = JStr ''A'', ingredients = [], instructions = []\<rparr>"
    by (simp add: recipe_A_def normalize_named)
  show "extractJsonLdRecipe example_platform (ldjson [nulls_text, plain_text]) =
       Inr (Some \<lparr>title = JStr ''B'', ingredients = [], instructions = []\<rparr>)"
    by (simp add: extractJsonLdRecipe_def ldjson_scripts tryBlock_nulls tryBlock_plain)
qed (simp_all add: example_JSON_parse)



text \<open>C1, as the code has it: when no earlier block yields a recipe and the scan of a
  block selects a record whose \<^verbatim>\<open>name\<close> is a text, whose \<^verbatim>\<open>recipeIngredient\<close>
  is a list and whose \<^verbatim>\<open>recipeInstructions\<close> is a list of texts, the extraction
  returns the recipe whose title is that name (the default title when the name is empty),
  whose ingredients are that list, and whose instructions are the texts of the list that
  are not empty, in order, each with markup removed, whitespace collapsed and trimmed.\<close>

theorem structured_recipe_extracted:
  assumes scripts: \<open>querySelectorAll (parseFromString P html)
                      ''script[type="application/ld+json"]'' = pre @ script # post\<close>
    and pre: "\<forall>b\<in>set pre. (\<exists>e. tryBlock P b = Inl e) \<or> tryBlock P b = Inr None"
    and parsed: "JSON_parse P (textContent script) = Inr parsed"
    and unwrap: "unwrapGraph parsed = Inr data"
    and select: "selectRecipe data = Inr (Some (JObj kvs))"
    and name: "map_of kvs ''name'' = Some (JStr name)"
    and ings: "map_of kvs ''recipeIngredient'' = Some (JArr ings)"
    and steps: "map_of kvs ''recipeInstructions'' = Some (JArr (map JStr steps))"
  shows "parseRecipe P html url =
           Inr (Some \<lparr>title = JStr (if name = [] then ''Untitled Recipe'' else name),
                      ingredients = ings,
                      instructions = map clean (filter (\<lambda>s. s \<noteq> []) steps)\<rparr>)"
proof -
  let ?r = "\<lparr>title = JStr (if name = [] then ''Untitled Recipe'' else name),
             ingredients = ings,
             instructions = map clean (filter (\<lambda>s. s \<noteq> []) steps)\<rparr>"
  have "normalizeRecipe P (JObj kvs) = Inr ?r"
    by (simp add: normalizeRecipe_obj rawInstructions_strings [OF steps] mapE_clean_strings
        name ings js_or_def truthy_val_def)
  then have "tryBlock P script = Inr (Some ?r)"
    using parsed unwrap select by (simp add: tryBlock_def)
  then have "scanScripts P (script # post) = Inr (Some ?r)" by simp
  then have "scanScripts P (pre @ script # post) = Inr (Some ?r)"
    using scanScripts_skip [OF pre] by simp
  then show ?thesis
    using scripts by (simp add: parseRecipe_def extractJsonLdRecipe_def Let_def)
qed

theorem structured_recipe_extracted_witness:
  "parseRecipe example_platform (script_tags [stew_text]) [] =
     Inr (Some \<lparr>title = JStr ''Stew'', ingredients = [JStr ''beef''],
                instructions = [''Brown the beef'', ''Simmer'']\<rparr>)"
proof -
  have scripts: \<open>querySelectorAll (parseFromString example_platform (script_tags [stew_text]))
                    ''script[type="application/ld+json"]'' = [] @ \<lparr>textContent = stew_text\<rparr> # []\<close>
    by (simp add: example_parseFromString ldjson_scripts)
  have pre: "\<forall>b\<in>set []. (\<exists>e. tryBlock example_platform b = Inl e)
               \<or> tryBlock example_platform b = Inr None" by simp
  have parsed: "JSON_parse example_platform (textContent \<lparr>textContent = stew_text\<rparr>) = Inr stew_value"
    by (simp add: example_JSON_parse)
  have unwrap: "unwrapGraph stew_value = Inr stew_value"
    by (simp add: stew_value_def unwrapGraph_def js_or_def truthy_val_def)
  have select: "selectRecipe stew_value = Inr (Some (JObj
           [(''@type'', JStr ''Recipe''), (''name'', JStr ''Stew''),
           (''recipeIngredient'', JArr [JStr ''beef'']),
           (''recipeInstructions'', JArr [JStr ''Brown the <i>beef</i>'', JStr ''Simmer''])]))"
    by (simp add: stew_value_def selectRecipe_def isRecipeType_def)
  have c: "map clean [''Brown the <i>beef</i>'', ''Simmer''] = [''Brown the beef'', ''Simmer'']"
    by (simp add: clean_def trim_def is_space_def)
  from structured_recipe_extracted [OF scripts pre parsed unwrap select,
      of "''Stew''" "[JStr ''beef'']" "[''Brown the <i>beef</i>'', ''Simmer'']" "[]"] c
  show ?thesis by simp
qed

text \<open>The instructions are not always the cleaned list: an empty text in the list is
  dropped, so three items give two instructions.\<close>

theorem structured_recipe_counterexample:
  "JSON_parse example_platform soup_text = Inr soup_value
   \<and> parseRecipe example_platform (script_tags [soup_text]) [] =
       Inr (Some \<lparr>title = JStr ''Soup'', ingredients = [JStr ''salt'', JStr ''water''],
                  instructions = [''Boil water'', ''Add salt'']\<rparr>)
   \<and> map clean [''<b>Boil</b>  water'', [], ''Add salt''] = [''Boil water'', [], ''Add salt'']"
proof (intro conjI)
  have "tryBlock example_platform \<lparr>textContent = soup_text\<rparr> =
     Inr (Some \<lparr>title = JStr ''Soup'', ingredients = [JStr ''salt'', JStr ''water''],
                  instructions = [''Boil water'', ''Add salt'']\<rparr>)"
    by (simp add: tryBlock_def example_JSON_parse)
       (simp add: soup_value_def unwrapGraph_def selectRecipe_def isRecipeType_def js_or_def
        truthy_val_def normalize_soup [unfolded soup_value_def])
  then show "parseRecipe example_platform (script_tags [soup_text]) [] =
       Inr (Some \<lparr>title = JStr ''Soup'', ingredients = [JStr ''salt'', JStr ''water''],
                  instructions = [''Boil water'', ''Add salt'']\<rparr>)"
    by (simp add: parseRecipe_def extractJsonLdRecipe_def example_parseFromString ldjson_scripts
        Let_def)
  show "map clean [''<b>Boil</b>  water'', [], ''Add salt''] = [''Boil water'', [], ''Add salt'']"
    by (simp add: clean_def trim_def is_space_def)
qed (simp add: example_JSON_parse)


subsection \<open>The heuristic extractor\<close>

lemma extractHtmlRecipe_returns: "\<exists>r. extractHtmlRecipe doc = Inr r"
  by (simp add: extractHtmlRecipe_def Let_def)

lemma findLines_firstMatching:
  "findLines doc selectors =
     (case firstMatching doc selectors of None \<Rightarrow> [] | Some selector \<Rightarrow> trimmedTexts doc selector)"
  by (induction selectors) (simp_all add: firstMatching_def trimmedTexts_def)

lemma findTitle_firstWithText:
  "findTitle doc selectors =
     (case firstWithText doc selectors of
        None \<Rightarrow> []
      | Some selector \<Rightarrow> hd (trimmedTexts doc selector))"
proof (induction selectors)
  case Nil
  then show ?case by (simp add: firstWithText_def)
next
  case (Cons selector selectors)
  then show ?case
    by (cases "querySelectorAll doc selector")
       (simp_all add: firstWithText_def querySelector_def trimmedTexts_def)
qed

text \<open>C7, as the code has it: the ingredients and the instructions are the trimmed texts
  of all elements matching the first selector, in priority order, that matches at least
  one element; later selectors are not consulted. The title is the trimmed text of the
  first element of the first selector whose first matching element has text other than
  whitespace: a selector that matches an element with blank text is passed over.\<close>

theorem first_selector_wins:
  "findLines doc ingredientSelectors =
     (case firstMatching doc ingredientSelectors of
        None \<Rightarrow> [] | Some selector \<Rightarrow> trimmedTexts doc selector)
   \<and> findLines doc instructionSelectors =
     (case firstMatching doc instructionSelectors of
        None \<Rightarrow> [] | Some selector \<Rightarrow> trimmedTexts doc selector)
   \<and> findTitle doc titleSelectors =
     (case firstWithText doc titleSelectors of
        None \<Rightarrow> [] | Some selector \<Rightarrow> hd (trimmedTexts doc selector))
   \<and> (\<forall>r. extractHtmlRecipe doc = Inr (Some r) \<longrightarrow>
         title r = JStr (findTitle doc titleSelectors)
         \<and> ingredients r = map JStr (findLines doc ingredientSelectors)
         \<and> instructions r = findLines doc instructionSelectors)"
proof (intro conjI allI impI)
  fix r assume r: "extractHtmlRecipe doc = Inr (Some r)"
  then have "r = \<lparr>title = JStr (findTitle doc titleSelectors),
                  ingredients = map JStr (findLines doc ingredientSelectors),
                  instructions = findLines doc instructionSelectors\<rparr>"
    unfolding extractHtmlRecipe_def Let_def by (simp split: if_splits)
  then show "title r = JStr (findTitle doc titleSelectors)"
    and "ingredients r = map JStr (findLines doc ingredientSelectors)"
    and "instructions r = findLines doc instructionSelectors" by simp_all
qed (rule findLines_firstMatching findTitle_firstWithText)+

theorem first_selector_wins_witness:
  "extractHtmlRecipe plain_page =
     Inr (Some \<lparr>title = JStr ''Tomato Soup'', ingredients = [JStr ''salt'', JStr ''water''],
                instructions = []\<rparr>)
   \<and> firstWithText plain_page titleSelectors = Some ''.recipe-name''
   \<and> firstMatching plain_page ingredientSelectors = Some ''.ingredient''
   \<and> firstMatching plain_page instructionSelectors = None
   \<and> findTitle plain_page titleSelectors = ''Tomato Soup''
   \<and> findLines plain_page ingredientSelectors = [''salt'', ''water'']
   \<and> findLines plain_page instructionSelectors = []"
proof -
  have a: "firstWithText plain_page titleSelectors = Some ''.recipe-name''"
    by (simp add: firstWithText_def titleSelectors_def querySelector_def plain_page_def
        trim_def is_space_def)
  have b: "firstMatching plain_page ingredientSelectors = Some ''.ingredient''"
    by (simp add: firstMatching_def ingredientSelectors_def plain_page_def)
  have c: "firstMatching plain_page instructionSelectors = None"
    by (simp add: firstMatching_def instructionSelectors_def plain_page_def)
  have d: "trimmedTexts plain_page ''.recipe-name'' = [''Tomato Soup'']"
    by (simp add: trimmedTexts_def plain_page_def trim_def is_space_def)
  have e: "trimmedTexts plain_page ''.ingredient'' = [''salt'', ''water'']"
    by (simp add: trimmedTexts_def plain_page_def trim_def is_space_def)
  note w = first_selector_wins [of plain_page]
  from w have "findLines plain_page ingredientSelectors =
     (case firstMatching plain_page ingredientSelectors of
        None \<Rightarrow> [] | Some selector \<Rightarrow> trimmedTexts plain_page selector)" by (rule conjunct1)
  then have i: "findLines plain_page ingredientSelectors = [''salt'', ''water'']"
    by (simp only: b e option.case)
  from w have "findLines plain_page instructionSelectors =
     (case firstMatching plain_page instructionSelectors of
        None \<Rightarrow> [] | Some selector \<Rightarrow> trimmedTexts plain_page selector)" by blast
  then have j: "findLines plain_page instructionSelectors = []"
    by (simp only: c option.case)
  from w have "findTitle plain_page titleSelectors =
     (case firstWithText plain_page titleSelectors of
        None \<Rightarrow> [] | Some selector \<Rightarrow> hd (trimmedTexts plain_page selector))" by blast
  then have t: "findTitle plain_page titleSelectors = ''Tomato Soup''"
    by (simp only: a d option.case list.sel)
  show ?thesis
    by (intro conjI) (rule heuristic_plain_page a b c t i j)+
qed

text \<open>For the title the first selector with a match is not the one used: on this page
  \<^verbatim>\<open>h1.recipe-title\<close> matches an element, whose text is blank, and the title comes
  from the lower-priority \<^verbatim>\<open>.recipe-name\<close>.\<close>

theorem first_selector_wins_counterexample:
  "firstMatching plain_page titleSelectors = Some ''h1.recipe-title''
   \<and> trimmedTexts plain_page ''h1.recipe-title'' = [[]]
   \<and> findTitle plain_page titleSelectors = ''Tomato Soup''
   \<and> trimmedTexts plain_page ''.recipe-name'' = [''Tomato Soup'']"
  by (simp add: firstMatching_def titleSelectors_def querySelector_def plain_page_def
        trimmedTexts_def trim_def is_space_def)


subsection \<open>The entry point\<close>

text \<open>C6: for every platform and every input text, \<^verbatim>\<open>parseRecipe\<close> returns a value,
  a recipe or \<^verbatim>\<open>null\<close>; it raises no exception.\<close>

theorem parseRecipe_never_raises: "\<exists>result. parseRecipe P html url = Inr result"
proof -
  let ?doc = "parseFromString P html"
  obtain r where r: "extractJsonLdRecipe P ?doc = Inr r"
    unfolding extractJsonLdRecipe_def using scanScripts_returns by blast
  obtain h where h: "extractHtmlRecipe ?doc = Inr h"
    using extractHtmlRecipe_returns by blast
  show ?thesis
    by (cases r) (simp_all add: parseRecipe_def Let_def r h)
qed


subsection \<open>The pipeline and its fallback\<close>

lemma isRecipeType_eq:
  "isRecipeType item = (if item = JNull then Inl TypeError else Inr (declaredRecipe item))"
  by (cases item) (auto simp: isRecipeType_def declaredRecipe_def split: option.splits json.splits)

lemma findE_isRecipeType:
  "findE isRecipeType items =
     (if JNull \<in> set (takeWhile (\<lambda>item. \<not> declaredRecipe item) items) then Inl TypeError
      else Inr (find declaredRecipe items))"
proof (induction items)
  case Nil
  then show ?case by simp
next
  case (Cons item items)
  have "\<not> declaredRecipe JNull" by (simp add: declaredRecipe_def)
  with Cons show ?case by (auto simp: isRecipeType_eq)
qed

lemma unwrapGraph_eq:
  "unwrapGraph parsed = (if parsed = JNull then Inl TypeError else Inr (graphItems parsed))"
  by (cases parsed)
     (auto simp: unwrapGraph_def graphItems_def js_or_def truthy_val_def split: option.splits)

lemma graphItems_not_null: "parsed \<noteq> JNull \<Longrightarrow> graphItems parsed \<noteq> JNull"
  by (cases parsed) (auto simp: graphItems_def split: option.splits)

lemma find_declared_truthy: "truthy_val (find declaredRecipe items) = find declaredRecipe items"
proof (cases "find declaredRecipe items")
  case None
  then show ?thesis by (simp add: truthy_val_def)
next
  case (Some x)
  then have "declaredRecipe x" by (metis find_Some_iff)
  then show ?thesis using Some by (simp add: truthy_val_def declaredRecipe_truthy)
qed

lemma selectRecipe_eq:
  assumes "parsed \<noteq> JNull"
  shows "selectRecipe (graphItems parsed) =
           (if inspectable parsed then Inr (firstRecipe parsed) else Inl TypeError)"
proof (cases "graphItems parsed")
  case JNull
  with graphItems_not_null [OF assms] show ?thesis by simp
next
  case (JArr items)
  then show ?thesis using assms
    by (simp add: selectRecipe_def inspectable_def firstRecipe_def findE_isRecipeType
        find_declared_truthy)
qed (use assms in \<open>simp_all add: selectRecipe_def inspectable_def firstRecipe_def isRecipeType_eq
    declaredRecipe_def\<close>)

lemma tryBlock_blockYield:
  "(case tryBlock P script of Inl e \<Rightarrow> None | Inr found \<Rightarrow> found) = blockYield P (textContent script)"
proof (cases "JSON_parse P (textContent script)")
  case (Inl e)
  then show ?thesis by (simp add: tryBlock_def blockYield_def)
next
  case (Inr parsed)
  show ?thesis
  proof (cases "parsed = JNull")
    case True
    then show ?thesis by (simp add: tryBlock_def blockYield_def Inr unwrapGraph_eq inspectable_def)
  next
    case False
    then show ?thesis
      by (simp add: tryBlock_def blockYield_def Inr unwrapGraph_eq selectRecipe_eq
          split: option.splits sum.splits)
  qed
qed

lemma scanScripts_firstYield:
  "scanScripts P scripts = Inr (firstYield P (map textContent scripts))"
proof (induction scripts)
  case Nil
  then show ?case by simp
next
  case (Cons script scripts)
  show ?case
    using tryBlock_blockYield [of P script] Cons.IH
    by (simp split: sum.splits option.splits)
qed

lemma extractHtmlRecipe_heuristicRecipe: "extractHtmlRecipe doc = Inr (heuristicRecipe doc)"
  by (simp add: extractHtmlRecipe_def heuristicRecipe_def Let_def
      findLines_firstMatching [symmetric] findTitle_firstWithText [symmetric])

text \<open>C3, as the code has it: \<^verbatim>\<open>parseRecipe\<close> returns the recipe of the first
  structured-data block, in document order, that yields one: its payload decodes, the
  search for its first Recipe-typed record meets no \<^verbatim>\<open>null\<close> item, and the
  normalization of that record returns. A block with a Recipe-typed record whose
  normalization throws yields nothing and is passed over like a block without a record.
  When no block yields, the result is the heuristic recipe if its title is not empty and
  its ingredients or its instructions are not empty, and \<^verbatim>\<open>null\<close> in every other
  case.\<close>

theorem fallback_pipeline:
  \<open>parseRecipe P html url =
     Inr (case firstYield P (map textContent
                 (querySelectorAll (parseFromString P html)
                    ''script[type="application/ld+json"]'')) of
            Some r \<Rightarrow> Some r
          | None \<Rightarrow> heuristicRecipe (parseFromString P html))\<close>
  by (simp add: parseRecipe_def Let_def extractJsonLdRecipe_def scanScripts_firstYield
      extractHtmlRecipe_heuristicRecipe split: option.splits)

text \<open>A page whose only block holds a record that the normalizer rejects, with
  recipe markup behind it; and a page whose block yields.\<close>

lemma mixed_page_scripts:
  \<open>querySelectorAll mixed_page ''script[type="application/ld+json"]'' =
     [\<lparr>textContent = null_step_text\<rparr>]\<close>
  by (simp add: mixed_page_def)

lemma normalize_null_step: "normalizeRecipe example_platform null_step_value = Inl TypeError"
  by (simp add: null_step_value_def normalizeRecipe_def extractTitle_def extractIngredients_def
      rawInstructions_def resolveItem_def js_or_def truthy_val_def)

lemma heuristic_mixed_page:
  "extractHtmlRecipe mixed_page =
     Inr (Some \<lparr>title = JStr ''Tomato Soup'', ingredients = [JStr ''salt'', JStr ''water''],
                instructions = []\<rparr>)"
  by (simp add: extractHtmlRecipe_def titleSelectors_def ingredientSelectors_def
      instructionSelectors_def querySelector_def mixed_page_def plain_page_def trim_def
      is_space_def Let_def)

theorem fallback_pipeline_witness:
  "parseRecipe example_platform mixed_html [] =
     Inr (Some \<lparr>title = JStr ''Tomato Soup'', ingredients = [JStr ''salt'', JStr ''water''],
                instructions = []\<rparr>)
   \<and> parseRecipe example_platform (script_tags [stew_text]) [] =
     Inr (Some \<lparr>title = JStr ''Stew'', ingredients = [JStr ''beef''],
                instructions = [''Brown the beef'', ''Simmer'']\<rparr>)"
proof
  have f: "firstRecipe null_step_value = Some null_step_value"
    by (simp add: firstRecipe_def graphItems_def null_step_value_def declaredRecipe_def)
  have y: "blockYield example_platform null_step_text = None"
    by (simp add: blockYield_def example_JSON_parse f normalize_null_step)
  have h: "heuristicRecipe mixed_page =
     Some \<lparr>title = JStr ''Tomato Soup'', ingredients = [JStr ''salt'', JStr ''water''],
                instructions = []\<rparr>"
    using heuristic_mixed_page by (simp add: extractHtmlRecipe_heuristicRecipe)
  from fallback_pipeline [of example_platform mixed_html "[]"]
  show "parseRecipe example_platform mixed_html [] =
     Inr (Some \<lparr>title = JStr ''Tomato Soup'', ingredients = [JStr ''salt'', JStr ''water''],
                instructions = []\<rparr>)"
    by (simp add: example_parseFromString mixed_page_scripts y h)
next
  have i: "inspectable stew_value" by (simp add: inspectable_def graphItems_def stew_value_def)
  have f: "firstRecipe stew_value = Some stew_value"
    by (simp add: firstRecipe_def graphItems_def stew_value_def declaredRecipe_def)
  have y: "blockYield example_platform stew_text =
     Some \<lparr>title = JStr ''Stew'', ingredients = [JStr ''beef''],
                instructions = [''Brown the beef'', ''Simmer'']\<rparr>"
    by (simp add: blockYield_def example_JSON_parse i f normalize_stew)
  from fallback_pipeline [of example_platform "script_tags [stew_text]" "[]"]
  show "parseRecipe example_platform (script_tags [stew_text]) [] =
     Inr (Some \<lparr>title = JStr ''Stew'', ingredients = [JStr ''beef''],
                instructions = [''Brown the beef'', ''Simmer'']\<rparr>)"
    by (simp add: example_parseFromString ldjson_scripts y)
qed

text \<open>The claim as the specification words it does not hold: on that page the
  structured data holds a Recipe-typed record, its normalization throws, and the result
  is the heuristic recipe.\<close>

theorem fallback_pipeline_counterexample:
  \<open>map textContent (querySelectorAll (parseFromString example_platform mixed_html)
       ''script[type="application/ld+json"]'') = [null_step_text]
   \<and> JSON_parse example_platform null_step_text = Inr null_step_value
   \<and> firstRecipeOfBlocks [null_step_value] = Some null_step_value
   \<and> normalizeRecipe example_platform null_step_value = Inl TypeError
   \<and> parseRecipe example_platform mixed_html [] =
       Inr (Some \<lparr>title = JStr ''Tomato Soup'', ingredients = [JStr ''salt'', JStr ''water''],
                  instructions = []\<rparr>)\<close>
proof (intro conjI)
  show \<open>map textContent (querySelectorAll (parseFromString example_platform mixed_html)
       ''script[type="application/ld+json"]'') = [null_step_text]\<close>
    by (simp add: example_parseFromString mixed_page_scripts)
  show "JSON_parse example_platform null_step_text = Inr null_step_value"
    by (simp add: example_JSON_parse)
  show "firstRecipeOfBlocks [null_step_value] = Some null_step_value"
    by (simp add: firstRecipe_def graphItems_def null_step_value_def declaredRecipe_def)
  show "normalizeRecipe example_platform null_step_value = Inl TypeError"
    by (rule normalize_null_step)
  have "tryBlock example_platform \<lparr>textContent = null_step_text\<rparr> = Inl TypeError"
    by (simp add: tryBlock_def example_JSON_parse unwrapGraph_def selectRecipe_def
        isRecipeType_def js_or_def truthy_val_def null_step_value_def
        normalize_null_step [unfolded null_step_value_def])
  then show "parseRecipe example_platform mixed_html [] =
       Inr (Some \<lparr>title = JStr ''Tomato Soup'', ingredients = [JStr ''salt'', JStr ''water''],
                  instructions = []\<rparr>)"
    by (simp add: parseRecipe_def extractJsonLdRecipe_def example_parseFromString
        mixed_page_scripts heuristic_mixed_page)
qed


subsection \<open>The state across calls\<close>

lemma findTitle_st_eq: "findTitle_st doc selectors \<sigma> = (findTitle (documents \<sigma> doc) selectors, \<sigma>)"
  by (induction selectors) (simp_all add: querySelector_st_def split: option.splits)

lemma findLines_st_eq: "findLines_st doc selectors \<sigma> = (findLines (documents \<sigma> doc) selectors, \<sigma>)"
  by (induction selectors) (simp_all add: querySelectorAll_st_def)

lemma extractHtmlRecipe_st_eq:
  "extractHtmlRecipe_st doc \<sigma> = (extractHtmlRecipe (documents \<sigma> doc), \<sigma>)"
  by (simp add: extractHtmlRecipe_st_def extractHtmlRecipe_def findTitle_st_eq findLines_st_eq
      Let_def)

lemma extractJsonLdRecipe_st_eq:
  "extractJsonLdRecipe_st P doc \<sigma> = (extractJsonLdRecipe P (documents \<sigma> doc), \<sigma>)"
  by (simp add: extractJsonLdRecipe_st_def extractJsonLdRecipe_def querySelectorAll_st_def)

lemma parseRecipe_st_eq:
  "parseRecipe_st P html url \<sigma> =
     (parseRecipe P html url,
      \<sigma>\<lparr>documents := (documents \<sigma>)(allocated \<sigma> := parseFromString P html),
        allocated := Suc (allocated \<sigma>)\<rparr>)"
proof -
  obtain r where r: "extractJsonLdRecipe P (parseFromString P html) = Inr r"
    unfolding extractJsonLdRecipe_def using scanScripts_returns by blast
  show ?thesis
    by (cases r)
       (simp_all add: parseRecipe_st_def parseRecipe_def parseFromString_st_def
          extractJsonLdRecipe_st_eq extractHtmlRecipe_st_eq r Let_def)
qed

text \<open>C9: with the documents and the page as state, \<^verbatim>\<open>parseRecipe\<close> returns the
  same value for the same text from any two states and whatever the URL arguments, so a
  second call repeats the result of the first, also when the page was written to in
  between; that value is the one the function on values gives. The call leaves the page
  as it was and adds one document to the store without touching those that were there.
  The two extractors return the state they were given, and on a document that is the
  same in two states they return the same value.\<close>

theorem extraction_deterministic:
  "fst (parseRecipe_st P html url' \<sigma>') = fst (parseRecipe_st P html url \<sigma>)
   \<and> fst (parseRecipe_st P html url' (snd (parseRecipe_st P html url \<sigma>))) =
       fst (parseRecipe_st P html url \<sigma>)
   \<and> fst (parseRecipe_st P html url \<sigma>) = parseRecipe P html url
   \<and> page (snd (parseRecipe_st P html url \<sigma>)) = page \<sigma>
   \<and> (d \<noteq> allocated \<sigma> \<longrightarrow> documents (snd (parseRecipe_st P html url \<sigma>)) d = documents \<sigma> d)
   \<and> snd (extractJsonLdRecipe_st P doc \<sigma>) = \<sigma>
   \<and> snd (extractHtmlRecipe_st doc \<sigma>) = \<sigma>
   \<and> (documents \<sigma>' doc = documents \<sigma> doc \<longrightarrow>
        fst (extractJsonLdRecipe_st P doc \<sigma>') = fst (extractJsonLdRecipe_st P doc \<sigma>)
        \<and> fst (extractHtmlRecipe_st doc \<sigma>') = fst (extractHtmlRecipe_st doc \<sigma>))"
proof -
  have "parseRecipe P html url' = parseRecipe P html url" by (simp add: parseRecipe_def)
  then show ?thesis
    by (simp add: parseRecipe_st_eq extractJsonLdRecipe_st_eq extractHtmlRecipe_st_eq)
qed

text \<open>Two calls on the page with the stew, the second after the first and after the page
  was reset and an error shown; and the heuristic extractor on the stored document.\<close>

theorem extraction_deterministic_witness:
  "fst (parseRecipe_st example_platform (script_tags [stew_text]) ''https://a.example/stew''
          example_state) =
     Inr (Some \<lparr>title = JStr ''Stew'', ingredients = [JStr ''beef''],
                instructions = [''Brown the beef'', ''Simmer'']\<rparr>)
   \<and> fst (parseRecipe_st example_platform (script_tags [stew_text]) ''https://b.example/''
            (showError ''Please enter a recipe URL''
               (resetCard (snd (parseRecipe_st example_platform (script_tags [stew_text])
                                  ''https://a.example/stew'' example_state))))) =
     Inr (Some \<lparr>title = JStr ''Stew'', ingredients = [JStr ''beef''],
                instructions = [''Brown the beef'', ''Simmer'']\<rparr>)
   \<and> (0::nat) \<noteq> allocated example_state
   \<and> documents (snd (parseRecipe_st example_platform (script_tags [stew_text])
                        ''https://a.example/stew'' example_state)) 0 = plain_page
   \<and> documents (showError ''Please enter a recipe URL'' (resetCard example_state)) 0 =
       documents example_state 0
   \<and> fst (extractHtmlRecipe_st 0 (showError ''Please enter a recipe URL''
                                      (resetCard example_state))) =
       Inr (Some \<lparr>title = JStr ''Tomato Soup'', ingredients = [JStr ''salt'', JStr ''water''],
                  instructions = []\<rparr>)"
proof -
  let ?html = "script_tags [stew_text]"
  let ?\<sigma>1 = "snd (parseRecipe_st example_platform ?html ''https://a.example/stew'' example_state)"
  let ?\<sigma>' = "showError ''Please enter a recipe URL'' (resetCard example_state)"
  have stew: "parseRecipe example_platform ?html ''https://a.example/stew'' =
     Inr (Some \<lparr>title = JStr ''Stew'', ingredients = [JStr ''beef''],
                instructions = [''Brown the beef'', ''Simmer'']\<rparr>)"
    by (simp add: parseRecipe_def extractJsonLdRecipe_def example_parseFromString ldjson_scripts
        tryBlock_stew)
  have a: "(0::nat) \<noteq> allocated example_state" by (simp add: example_state_def)
  have d: "documents example_state 0 = plain_page" by (simp add: example_state_def)
  have s: "documents ?\<sigma>' 0 = documents example_state 0"
    by (simp add: showError_def resetCard_def hideError_def)
  have h: "fst (extractHtmlRecipe_st 0 example_state) =
       Inr (Some \<lparr>title = JStr ''Tomato Soup'', ingredients = [JStr ''salt'', JStr ''water''],
                  instructions = []\<rparr>)"
    by (simp add: extractHtmlRecipe_st_def titleSelectors_def ingredientSelectors_def
        instructionSelectors_def querySelector_st_def querySelectorAll_st_def querySelector_def
        d plain_page_def trim_def is_space_def)
  note t = extraction_deterministic [of example_platform ?html _ _ "''https://a.example/stew''"
      example_state 0 0]
  from t [of "''https://a.example/stew''" example_state] stew
  have 1: "fst (parseRecipe_st example_platform ?html ''https://a.example/stew'' example_state) =
     Inr (Some \<lparr>title = JStr ''Stew'', ingredients = [JStr ''beef''],
                instructions = [''Brown the beef'', ''Simmer'']\<rparr>)" by simp
  from t [of "''https://b.example/''" "showError ''Please enter a recipe URL'' (resetCard ?\<sigma>1)"] 1
  have 2: "fst (parseRecipe_st example_platform ?html ''https://b.example/''
            (showError ''Please enter a recipe URL'' (resetCard ?\<sigma>1))) =
     Inr (Some \<lparr>title = JStr ''Stew'', ingredients = [JStr ''beef''],
                instructions = [''Brown the beef'', ''Simmer'']\<rparr>)" by simp
  from t [of "''https://a.example/stew''" example_state] a d
  have 3: "documents ?\<sigma>1 0 = plain_page" by simp
  from t [of "''https://a.example/stew''" ?\<sigma>'] s h
  have 4: "fst (extractHtmlRecipe_st 0 ?\<sigma>') =
       Inr (Some \<lparr>title = JStr ''Tomato Soup'', ingredients = [JStr ''salt'', JStr ''water''],
                  instructions = []\<rparr>)" by simp
  from 1 2 a 3 s 4 show ?thesis by blast
qed


end
